theory Spec2Isabelle
  imports Complex_Main "HOL-Library.Word"
begin

section \<open>The avatar registry of AvatarHashMap.cpp\<close>

text \<open>
  The development follows \<^verbatim>\<open>libraries/avatars/src/AvatarHashMap.cpp\<close>: the hash of
  avatars keyed by session UUID, the four packet listeners registered in the constructor
  (bulk avatar data, kill, identity, billboard) and the \<^verbatim>\<open>uuidChanged\<close> slot.
  Mutation through a shared pointer is written as explicit state passing: a handler takes
  the \<^verbatim>\<open>AvatarHashMap\<close> object and returns it updated.
\<close>

subsection \<open>Library types: bytes, UUIDs, packets, QHash\<close>

type_synonym byte = "8 word"
type_synonym QByteArray = "byte list"
type_synonym QUuid = "128 word"
type_synonym QUrl = string
type_synonym QString = string

text \<open>
  A \<^verbatim>\<open>float\<close> is its 32 bits (IEEE 754 binary32): bit 31 is the sign, bits 30 to 23
  the biased exponent, bits 22 to 0 the fraction. \<^verbatim>\<open>glm::vec3\<close> is three of them.
\<close>

type_synonym float = "32 word"
type_synonym vec3 = "float \<times> float \<times> float"

text \<open>A node of the node list is an opaque handle; a null pointer to one is \<open>None\<close>.\<close>

type_synonym Node = nat
type_synonym NodePointer = "Node option"

text \<open>
  \<^verbatim>\<open>NUM_BYTES_RFC4122_UUID\<close> is declared outside these sources; an RFC 4122 UUID is
  16 bytes on the wire.
\<close>

definition NUM_BYTES_RFC4122_UUID :: nat where
  "NUM_BYTES_RFC4122_UUID = 16"

text \<open>
  \<^verbatim>\<open>QUuid::fromRfc4122\<close> (Qt): a byte array that is not 16 bytes long gives the null
  UUID, otherwise the bytes are read in network order.
\<close>

definition fromRfc4122 :: "QByteArray \<Rightarrow> QUuid" where
  "fromRfc4122 bytes = (if length bytes = 16 then word_rcat bytes else 0)"

text \<open>
  \<^verbatim>\<open>QByteArray::fromRawData(data, size)\<close> (Qt) is the array of the first \<open>size\<close>
  bytes at \<open>data\<close>.
\<close>

definition fromRawData :: "QByteArray \<Rightarrow> nat \<Rightarrow> QByteArray" where
  "fromRawData data n = take n data"

text \<open>
  A packet is a random-access device over its payload: the payload bytes and the read
  position. \<^verbatim>\<open>read(n)\<close> returns at most \<open>n\<close> bytes from the position and moves it
  past them; \<^verbatim>\<open>seek\<close> refuses a negative position and otherwise sets it;
  \<^verbatim>\<open>bytesAvailable\<close> is what is left after the position, never negative.
\<close>

record NLPacket =
  getPayload :: QByteArray
  pos :: nat

definition newPacket :: "QByteArray \<Rightarrow> NLPacket" where
  "newPacket bytes = \<lparr>getPayload = bytes, pos = 0\<rparr>"

definition bytesAvailable :: "NLPacket \<Rightarrow> nat" where
  "bytesAvailable packet = length (getPayload packet) - pos packet"

definition read :: "nat \<Rightarrow> NLPacket \<Rightarrow> QByteArray \<times> NLPacket" where
  "read maxSize packet =
     (let bytes = take maxSize (drop (pos packet) (getPayload packet))
      in (bytes, packet\<lparr>pos := pos packet + length bytes\<rparr>))"

definition seek :: "int \<Rightarrow> NLPacket \<Rightarrow> NLPacket" where
  "seek target packet = (if target < 0 then packet else packet\<lparr>pos := nat target\<rparr>)"

text \<open>
  \<^verbatim>\<open>QHash\<close> (Qt) is kept as the list of its items, since the container itself can
  hold several items under one key. \<^verbatim>\<open>value(key)\<close> is the first item of the key, or
  a default-constructed value (here: the null pointer, \<open>None\<close>) when there is none;
  \<^verbatim>\<open>insert(key, value)\<close> replaces the value of an item with that key when there is one
  and adds an item otherwise; \<^verbatim>\<open>remove(key)\<close> removes every item of the key.
\<close>

type_synonym ('k, 'v) QHash = "('k \<times> 'v) list"

fun QHash_value :: "('k, 'v) QHash \<Rightarrow> 'k \<Rightarrow> 'v option" where
  "QHash_value [] key = None"
| "QHash_value ((k, v) # items) key = (if k = key then Some v else QHash_value items key)"

fun QHash_insert :: "'k \<Rightarrow> 'v \<Rightarrow> ('k, 'v) QHash \<Rightarrow> ('k, 'v) QHash" where
  "QHash_insert key val [] = [(key, val)]"
| "QHash_insert key val ((k, v) # items) =
     (if k = key then (k, val) # items else (k, v) # QHash_insert key val items)"

fun QHash_remove :: "'k \<Rightarrow> ('k, 'v) QHash \<Rightarrow> ('k, 'v) QHash" where
  "QHash_remove key [] = []"
| "QHash_remove key ((k, v) # items) =
     (if k = key then QHash_remove key items else (k, v) # QHash_remove key items)"

text \<open>
  A write through the shared pointer that \<^verbatim>\<open>value(key)\<close> returned lands in the object
  of the first item of the key.
\<close>

fun writeThrough :: "'k \<Rightarrow> 'v \<Rightarrow> ('k, 'v) QHash \<Rightarrow> ('k, 'v) QHash" where
  "writeThrough key val [] = []"
| "writeThrough key val ((k, v) # items) =
     (if k = key then (k, val) # items else (k, v) # writeThrough key val items)"

subsection \<open>AvatarData\<close>

text \<open>
  Modelled from the spec: the class \<^verbatim>\<open>AvatarData\<close> (its fields, constructor, getters
  and setters) is declared outside these sources. The record has the fields the spec's
  AvatarRecord lists; a default-constructed one has the null UUID, no mixer, zero
  position, empty URLs, no attachments, an empty name and an empty billboard. A setter
  replaces its field. The field \<open>setterCalls\<close> is a trace of the setters invoked on the
  object, so that a guarded write differs from an unguarded one.
\<close>

type_synonym AttachmentData = QByteArray

datatype setter =
  SetFaceModelURL | SetSkeletonModelURL | SetAttachmentData | SetDisplayName | SetBillboard

record AvatarData =
  sessionUUID :: QUuid
  owningAvatarMixer :: NodePointer
  position :: vec3
  faceModelURL :: QUrl
  skeletonModelURL :: QUrl
  attachmentData :: "AttachmentData list"
  displayName :: QString
  billboard :: QByteArray
  setterCalls :: "setter list"

definition newAvatarData :: AvatarData where
  "newAvatarData =
     \<lparr>sessionUUID = 0, owningAvatarMixer = None, position = (0, 0, 0),
      faceModelURL = [], skeletonModelURL = [], attachmentData = [],
      displayName = [], billboard = [], setterCalls = []\<rparr>"

definition setSessionUUID :: "QUuid \<Rightarrow> AvatarData \<Rightarrow> AvatarData" where
  "setSessionUUID uuid avatar = avatar\<lparr>sessionUUID := uuid\<rparr>"

definition setOwningAvatarMixer :: "NodePointer \<Rightarrow> AvatarData \<Rightarrow> AvatarData" where
  "setOwningAvatarMixer mixer avatar = avatar\<lparr>owningAvatarMixer := mixer\<rparr>"

definition setFaceModelURL :: "QUrl \<Rightarrow> AvatarData \<Rightarrow> AvatarData" where
  "setFaceModelURL url avatar =
     avatar\<lparr>faceModelURL := url, setterCalls := setterCalls avatar @ [SetFaceModelURL]\<rparr>"

definition setSkeletonModelURL :: "QUrl \<Rightarrow> AvatarData \<Rightarrow> AvatarData" where
  "setSkeletonModelURL url avatar =
     avatar\<lparr>skeletonModelURL := url,
            setterCalls := setterCalls avatar @ [SetSkeletonModelURL]\<rparr>"

definition setAttachmentData :: "AttachmentData list \<Rightarrow> AvatarData \<Rightarrow> AvatarData" where
  "setAttachmentData attachments avatar =
     avatar\<lparr>attachmentData := attachments,
            setterCalls := setterCalls avatar @ [SetAttachmentData]\<rparr>"

definition setDisplayName :: "QString \<Rightarrow> AvatarData \<Rightarrow> AvatarData" where
  "setDisplayName name avatar =
     avatar\<lparr>displayName := name, setterCalls := setterCalls avatar @ [SetDisplayName]\<rparr>"

definition setBillboard :: "QByteArray \<Rightarrow> AvatarData \<Rightarrow> AvatarData" where
  "setBillboard bytes avatar =
     avatar\<lparr>billboard := bytes, setterCalls := setterCalls avatar @ [SetBillboard]\<rparr>"

text \<open>
  \<^verbatim>\<open>AvatarData::parseDataFromBuffer\<close> is not in these sources. It is a parameter of
  every function that reaches it: given the object and the buffer it returns the object
  as the parse left it and the \<^verbatim>\<open>int\<close> it reports as bytes read.
\<close>

type_synonym parser = "AvatarData \<Rightarrow> QByteArray \<Rightarrow> AvatarData \<times> int"

subsection \<open>AvatarHashMap\<close>

record AvatarHashMap =
  avatarHash :: "(QUuid, AvatarData) QHash"
  lastOwnerSessionUUID :: QUuid

text \<open>A new object has an empty hash and a default-constructed (null) last owner UUID.\<close>

definition newAvatarHashMap :: AvatarHashMap where
  "newAvatarHashMap = \<lparr>avatarHash = [], lastOwnerSessionUUID = 0\<rparr>"

subsection \<open>Float arithmetic\<close>

text \<open>
  The arithmetic on \<^verbatim>\<open>float\<close> is that of IEEE 754 binary32 with the default rounding
  (to nearest, ties to even), each operation rounded on its own. A float that is not a
  NaN is an infinity or the number \<open>(-1)\<^sup>s * m * 2\<^sup>e\<close>; a zero keeps its sign.
\<close>

datatype ieee = Finite bool nat int | Infinity bool | NaN

definition decode :: "float \<Rightarrow> ieee" where
  "decode w =
     (let s = (2 ^ 31 \<le> unat w);
          ex = (unat w div 2 ^ 23) mod 2 ^ 8;
          fr = unat w mod 2 ^ 23
      in if ex = 255 then (if fr = 0 then Infinity s else NaN)
         else if ex = 0 then Finite s fr (- 149)
         else Finite s (2 ^ 23 + fr) (int ex - 150))"

definition encode :: "bool \<Rightarrow> nat \<Rightarrow> nat \<Rightarrow> float" where
  "encode s ex fr = of_nat ((if s then 2 ^ 31 else 0) + ex * 2 ^ 23 + fr)"

definition float_infinity :: "bool \<Rightarrow> float" where
  "float_infinity s = encode s 255 0"

definition float_nan :: float where
  "float_nan = encode False 255 (2 ^ 22)"

text \<open>The number of bits of a natural number.\<close>

fun bits :: "nat \<Rightarrow> nat" where
  "bits n = (if n = 0 then 0 else Suc (bits (n div 2)))"

declare bits.simps [simp del]

text \<open>\<open>M / 2\<^sup>k\<close> rounded to the nearest integer, a tie to the even one.\<close>

definition roundToEven :: "nat \<Rightarrow> nat \<Rightarrow> nat" where
  "roundToEven M k =
     (if k = 0 then M
      else let q = M div 2 ^ k; r = M mod 2 ^ k; half = 2 ^ (k - 1)
           in if half < r \<or> (r = half \<and> odd q) then q + 1 else q)"

text \<open>
  The float nearest to the exact value \<open>(-1)\<^sup>s * M * 2\<^sup>E\<close>: 24 significant bits, or
  fewer at the smallest exponent (subnormal numbers, down to zero); a result of
  \<open>2\<^sup>1\<^sup>2\<^sup>8\<close> or more is the infinity.
\<close>

definition round32 :: "bool \<Rightarrow> nat \<Rightarrow> int \<Rightarrow> float" where
  "round32 s M E =
     (let e = max (- 149) (E + int (bits M) - 24);
          m = (if e \<le> E then M * 2 ^ nat (E - e) else roundToEven M (nat (e - E)));
          e = (if m = 2 ^ 24 then e + 1 else e);
          m = (if m = 2 ^ 24 then 2 ^ 23 else m)
      in if m = 0 then encode s 0 0
         else if 104 < e then float_infinity s
         else if m < 2 ^ 23 then encode s 0 m
         else encode s (nat (e + 150)) (m - 2 ^ 23))"

definition float_add :: "float \<Rightarrow> float \<Rightarrow> float" where
  "float_add a b =
     (case (decode a, decode b) of
        (NaN, _) \<Rightarrow> float_nan
      | (_, NaN) \<Rightarrow> float_nan
      | (Infinity s1, Infinity s2) \<Rightarrow> if s1 = s2 then float_infinity s1 else float_nan
      | (Infinity s1, Finite _ _ _) \<Rightarrow> float_infinity s1
      | (Finite _ _ _, Infinity s2) \<Rightarrow> float_infinity s2
      | (Finite s1 m1 e1, Finite s2 m2 e2) \<Rightarrow>
          (let e = min e1 e2;
               v1 = (if s1 then - 1 else 1) * int m1 * 2 ^ nat (e1 - e);
               v2 = (if s2 then - 1 else 1) * int m2 * 2 ^ nat (e2 - e);
               v = v1 + v2
           in if v = 0 then encode (s1 \<and> s2) 0 0
              else round32 (v < 0) (nat \<bar>v\<bar>) e))"

text \<open>Negation flips the sign bit.\<close>

definition float_neg :: "float \<Rightarrow> float" where
  "float_neg a = a + 2 ^ 31"

definition float_sub :: "float \<Rightarrow> float \<Rightarrow> float" where
  "float_sub a b =
     (case decode b of NaN \<Rightarrow> float_nan | _ \<Rightarrow> float_add a (float_neg b))"

definition float_mul :: "float \<Rightarrow> float \<Rightarrow> float" where
  "float_mul a b =
     (case (decode a, decode b) of
        (NaN, _) \<Rightarrow> float_nan
      | (_, NaN) \<Rightarrow> float_nan
      | (Infinity s1, Infinity s2) \<Rightarrow> float_infinity (s1 \<noteq> s2)
      | (Infinity s1, Finite s2 m2 _) \<Rightarrow>
          if m2 = 0 then float_nan else float_infinity (s1 \<noteq> s2)
      | (Finite s1 m1 _, Infinity s2) \<Rightarrow>
          if m1 = 0 then float_nan else float_infinity (s1 \<noteq> s2)
      | (Finite s1 m1 e1, Finite s2 m2 e2) \<Rightarrow> round32 (s1 \<noteq> s2) (m1 * m2) (e1 + e2))"

text \<open>The integer square root, one bit at a time from the top.\<close>

fun isqrt_bits :: "nat \<Rightarrow> nat \<Rightarrow> nat \<Rightarrow> nat" where
  "isqrt_bits k n r =
     (if k = 0 then r
      else if (r + 2 ^ (k - 1)) * (r + 2 ^ (k - 1)) \<le> n
           then isqrt_bits (k - 1) n (r + 2 ^ (k - 1))
           else isqrt_bits (k - 1) n r)"

declare isqrt_bits.simps [simp del]

definition isqrt :: "nat \<Rightarrow> nat" where
  "isqrt n = isqrt_bits (bits n) n 0"

text \<open>
  The square root: the exponent is made even, the significand is scaled by \<open>4\<^sup>2\<^sup>6\<close> so
  that its integer root has more than 24 bits, and a bit below the last records whether
  the root is inexact, which is what the rounding needs to know.
\<close>

definition float_sqrt :: "float \<Rightarrow> float" where
  "float_sqrt a =
     (case decode a of
        NaN \<Rightarrow> float_nan
      | Infinity s \<Rightarrow> if s then float_nan else a
      | Finite s m e \<Rightarrow>
          if m = 0 then a
          else if s then float_nan
          else (let m1 = (if even e then m else 2 * m);
                    e1 = (if even e then e else e - 1);
                    m2 = m1 * 4 ^ 26;
                    f = isqrt m2;
                    sticky = (if f * f = m2 then 0 else 1)
                in round32 False (2 * f + sticky) (e1 div 2 - 27)))"

text \<open>The comparison \<^verbatim>\<open><\<close> on floats: false when either side is a NaN.\<close>

definition float_less :: "float \<Rightarrow> float \<Rightarrow> bool" where
  "float_less a b =
     (case (decode a, decode b) of
        (NaN, _) \<Rightarrow> False
      | (_, NaN) \<Rightarrow> False
      | (Infinity s1, Infinity s2) \<Rightarrow> s1 \<and> \<not> s2
      | (Infinity s1, Finite _ _ _) \<Rightarrow> s1
      | (Finite _ _ _, Infinity s2) \<Rightarrow> \<not> s2
      | (Finite s1 m1 e1, Finite s2 m2 e2) \<Rightarrow>
          (let e = min e1 e2
           in (if s1 then - 1 else 1) * int m1 * 2 ^ nat (e1 - e)
                < (if s2 then - 1 else 1) * int m2 * 2 ^ nat (e2 - e)))"

text \<open>
  \<^verbatim>\<open>glm::distance(p0, p1)\<close> is \<^verbatim>\<open>length(p1 - p0)\<close>, the square root of the dot product
  of the difference with itself; the three products are summed from the left.
\<close>

fun glm_distance :: "vec3 \<Rightarrow> vec3 \<Rightarrow> float" where
  "glm_distance (x0, y0, z0) (x1, y1, z1) =
     (let dx = float_sub x1 x0; dy = float_sub y1 y0; dz = float_sub z1 z0;
          tx = float_mul dx dx; ty = float_mul dy dy; tz = float_mul dz dz
      in float_sqrt (float_add (float_add tx ty) tz))"

declare glm_distance.simps [simp del]

text \<open>
  The real number that a finite float \<open>Finite s m e\<close> stands for, and the straight-line
  distance of two points of real coordinates.
\<close>

definition finite_value :: "bool \<Rightarrow> nat \<Rightarrow> int \<Rightarrow> real" where
  "finite_value s m e =
     (if s then - 1 else 1) * real m * (if 0 \<le> e then 2 ^ nat e else 1 / 2 ^ nat (- e))"

fun euclidean :: "real \<times> real \<times> real \<Rightarrow> real \<times> real \<times> real \<Rightarrow> real" where
  "euclidean (x0, y0, z0) (x1, y1, z1) =
     sqrt ((x1 - x0) * (x1 - x0) + (y1 - y0) * (y1 - y0) + (z1 - z0) * (z1 - z0))"

subsection \<open>The member functions\<close>

text \<open>The \<^verbatim>\<open>foreach\<close> of \<^verbatim>\<open>isAvatarInRange\<close>, with its early return.\<close>

fun isAvatarInRange_loop :: "(QUuid, AvatarData) QHash \<Rightarrow> vec3 \<Rightarrow> float \<Rightarrow> bool" where
  "isAvatarInRange_loop [] position' range' = False"
| "isAvatarInRange_loop ((uuid, sharedAvatar) # rest) position' range' =
     (let avatarPosition = position sharedAvatar;
          distance = glm_distance avatarPosition position'
      in if float_less distance range' then True
         else isAvatarInRange_loop rest position' range')"

text \<open>The member function is not const: it returns its result and the object.\<close>

definition isAvatarInRange :: "vec3 \<Rightarrow> float \<Rightarrow> AvatarHashMap \<Rightarrow> bool \<times> AvatarHashMap" where
  "isAvatarInRange position' range' this =
     (isAvatarInRange_loop (avatarHash this) position' range', this)"

definition newSharedAvatar :: AvatarData where
  "newSharedAvatar = newAvatarData"

definition addAvatar :: "QUuid \<Rightarrow> NodePointer \<Rightarrow> AvatarHashMap \<Rightarrow> AvatarData \<times> AvatarHashMap" where
  "addAvatar sessionUUID' mixerWeakPointer this =
     (let avatar = newSharedAvatar;
          avatar = setSessionUUID sessionUUID' avatar;
          avatar = setOwningAvatarMixer mixerWeakPointer avatar
      in (avatar, this\<lparr>avatarHash := QHash_insert sessionUUID' avatar (avatarHash this)\<rparr>))"

text \<open>
  The sequence \<^verbatim>\<open>avatar = _avatarHash.value(sessionUUID); if (!avatar) avatar = addAvatar(...)\<close>
  that the bulk-data, identity and billboard handlers each open with.
\<close>

definition valueOrAddAvatar :: "QUuid \<Rightarrow> NodePointer \<Rightarrow> AvatarHashMap \<Rightarrow> AvatarData \<times> AvatarHashMap" where
  "valueOrAddAvatar sessionUUID' sendingNode this =
     (case QHash_value (avatarHash this) sessionUUID' of
        Some avatar \<Rightarrow> (avatar, this)
      | None \<Rightarrow> addAvatar sessionUUID' sendingNode this)"

text \<open>One turn of the \<^verbatim>\<open>while\<close> loop of \<^verbatim>\<open>processAvatarDataPacket\<close>.\<close>

definition processAvatarDataPacket_body ::
  "parser \<Rightarrow> NodePointer \<Rightarrow> AvatarHashMap \<Rightarrow> NLPacket \<Rightarrow> AvatarHashMap \<times> NLPacket" where
  "processAvatarDataPacket_body parseDataFromBuffer sendingNode this packet =
     (let (bytes, packet) = read NUM_BYTES_RFC4122_UUID packet;
          sessionUUID' = fromRfc4122 bytes
      in if sessionUUID' \<noteq> lastOwnerSessionUUID this then
           (let (avatar, this) = valueOrAddAvatar sessionUUID' sendingNode this;
                (avatar, bytesRead) =
                   parseDataFromBuffer avatar (fromRawData (getPayload packet) (pos packet));
                this = this\<lparr>avatarHash := writeThrough sessionUUID' avatar (avatarHash this)\<rparr>
            in (this, seek (int (pos packet) + bytesRead) packet))
         else
           (let dummyData = newAvatarData;
                (dummyData, bytesRead) =
                   parseDataFromBuffer dummyData (fromRawData (getPayload packet) (pos packet))
            in (this, seek (int (pos packet) + bytesRead) packet)))"

text \<open>
  The loop runs while bytes are available. Nothing in the handler bounds the turns (a
  parse that reports a negative count moves the position back), so not returning is the
  value \<open>None\<close>.
\<close>

partial_function (option) processAvatarDataPacket_loop ::
  "parser \<Rightarrow> NodePointer \<Rightarrow> AvatarHashMap \<Rightarrow> NLPacket \<Rightarrow> AvatarHashMap option" where
  "processAvatarDataPacket_loop parseDataFromBuffer sendingNode this packet =
     (if bytesAvailable packet \<noteq> 0 then
        processAvatarDataPacket_loop parseDataFromBuffer sendingNode
          (fst (processAvatarDataPacket_body parseDataFromBuffer sendingNode this packet))
          (snd (processAvatarDataPacket_body parseDataFromBuffer sendingNode this packet))
      else Some this)"

declare processAvatarDataPacket_loop.simps [code]

definition processAvatarDataPacket ::
  "parser \<Rightarrow> NLPacket \<Rightarrow> NodePointer \<Rightarrow> AvatarHashMap \<Rightarrow> AvatarHashMap option" where
  "processAvatarDataPacket parseDataFromBuffer packet sendingNode this =
     processAvatarDataPacket_loop parseDataFromBuffer sendingNode this packet"

text \<open>
  The identity packet is read through a \<^verbatim>\<open>QDataStream\<close>; the stream is taken as the
  sequence of tuples that its \<^verbatim>\<open>>>\<close> yields, one per turn of the loop, until
  \<^verbatim>\<open>atEnd()\<close>.
\<close>

type_synonym identity = "QUuid \<times> QUrl \<times> QUrl \<times> AttachmentData list \<times> QString"

fun processAvatarIdentityPacket_body :: "identity \<Rightarrow> NodePointer \<Rightarrow> AvatarHashMap \<Rightarrow> AvatarHashMap" where
  "processAvatarIdentityPacket_body (sessionUUID', faceMeshURL, skeletonURL, attachmentData', displayName')
       sendingNode this =
     (let (avatar, this) = valueOrAddAvatar sessionUUID' sendingNode this;
          avatar = (if faceModelURL avatar \<noteq> faceMeshURL
                    then setFaceModelURL faceMeshURL avatar else avatar);
          avatar = (if skeletonModelURL avatar \<noteq> skeletonURL
                    then setSkeletonModelURL skeletonURL avatar else avatar);
          avatar = (if attachmentData avatar \<noteq> attachmentData'
                    then setAttachmentData attachmentData' avatar else avatar);
          avatar = (if displayName avatar \<noteq> displayName'
                    then setDisplayName displayName' avatar else avatar)
      in this\<lparr>avatarHash := writeThrough sessionUUID' avatar (avatarHash this)\<rparr>)"

fun processAvatarIdentityPacket :: "identity list \<Rightarrow> NodePointer \<Rightarrow> AvatarHashMap \<Rightarrow> AvatarHashMap" where
  "processAvatarIdentityPacket [] sendingNode this = this"
| "processAvatarIdentityPacket (tuple # identityStream) sendingNode this =
     processAvatarIdentityPacket identityStream sendingNode
       (processAvatarIdentityPacket_body tuple sendingNode this)"

definition processAvatarBillboardPacket :: "NLPacket \<Rightarrow> NodePointer \<Rightarrow> AvatarHashMap \<Rightarrow> AvatarHashMap" where
  "processAvatarBillboardPacket packet sendingNode this =
     (let (bytes, packet) = read NUM_BYTES_RFC4122_UUID packet;
          sessionUUID' = fromRfc4122 bytes;
          (avatar, this) = valueOrAddAvatar sessionUUID' sendingNode this;
          (billboard', packet) = read (bytesAvailable packet) packet;
          avatar = (if billboard avatar \<noteq> billboard'
                    then setBillboard billboard' avatar else avatar)
      in this\<lparr>avatarHash := writeThrough sessionUUID' avatar (avatarHash this)\<rparr>)"

definition removeAvatar :: "QUuid \<Rightarrow> AvatarHashMap \<Rightarrow> AvatarHashMap" where
  "removeAvatar sessionUUID' this =
     this\<lparr>avatarHash := QHash_remove sessionUUID' (avatarHash this)\<rparr>"

definition processKillAvatar :: "NLPacket \<Rightarrow> NodePointer \<Rightarrow> AvatarHashMap \<Rightarrow> AvatarHashMap" where
  "processKillAvatar packet sendingNode this =
     (let (bytes, packet) = read NUM_BYTES_RFC4122_UUID packet;
          sessionUUID' = fromRfc4122 bytes
      in removeAvatar sessionUUID' this)"

definition sessionUUIDChanged :: "QUuid \<Rightarrow> QUuid \<Rightarrow> AvatarHashMap \<Rightarrow> AvatarHashMap" where
  "sessionUUIDChanged sessionUUID' oldUUID this = this\<lparr>lastOwnerSessionUUID := oldUUID\<rparr>"

text \<open>
  The constructor registers one listener per packet type and connects the node list's
  \<^verbatim>\<open>uuidChanged\<close> signal; an invocation of the object from outside is one of these.
\<close>

datatype invocation =
  BulkAvatarData NLPacket NodePointer
| KillAvatar NLPacket NodePointer
| AvatarIdentity "identity list" NodePointer
| AvatarBillboard NLPacket NodePointer
| UuidChanged QUuid QUuid

fun invoke :: "parser \<Rightarrow> invocation \<Rightarrow> AvatarHashMap \<Rightarrow> AvatarHashMap option" where
  "invoke parseDataFromBuffer (BulkAvatarData packet sendingNode) this =
     processAvatarDataPacket parseDataFromBuffer packet sendingNode this"
| "invoke parseDataFromBuffer (KillAvatar packet sendingNode) this =
     Some (processKillAvatar packet sendingNode this)"
| "invoke parseDataFromBuffer (AvatarIdentity identityStream sendingNode) this =
     Some (processAvatarIdentityPacket identityStream sendingNode this)"
| "invoke parseDataFromBuffer (AvatarBillboard packet sendingNode) this =
     Some (processAvatarBillboardPacket packet sendingNode this)"
| "invoke parseDataFromBuffer (UuidChanged sessionUUID' oldUUID) this =
     Some (sessionUUIDChanged sessionUUID' oldUUID this)"

fun invokeAll :: "parser \<Rightarrow> invocation list \<Rightarrow> AvatarHashMap \<Rightarrow> AvatarHashMap option" where
  "invokeAll parseDataFromBuffer [] this = Some this"
| "invokeAll parseDataFromBuffer (i # rest) this =
     (case invoke parseDataFromBuffer i this of
        None \<Rightarrow> None
      | Some this' \<Rightarrow> invokeAll parseDataFromBuffer rest this')"

text \<open>
  A stand-in for the absent parser, used where a statement is evaluated at a concrete
  packet: the data of a sub-record is one length byte \<open>n\<close> and \<open>n\<close> further bytes.
  The parse stores \<open>n\<close> in the bits of the position's first coordinate and reports
  \<open>1 + n\<close> bytes; a buffer too
  short for what it declares is skipped whole, and nothing is read past the buffer.
\<close>

definition lengthPrefixedParse :: parser where
  "lengthPrefixedParse avatar buffer =
     (case buffer of
        [] \<Rightarrow> (avatar, 0)
      | n # rest \<Rightarrow>
          if unat n \<le> length rest
          then (avatar\<lparr>position := (ucast n, 0, 0)\<rparr>, 1 + int (unat n))
          else (avatar, int (length buffer)))"

text \<open>Every avatar of the hash carries the session UUID it is stored under.\<close>

definition uuidsMatch :: "AvatarHashMap \<Rightarrow> bool" where
  "uuidsMatch this = (\<forall>item \<in> set (avatarHash this). sessionUUID (snd item) = fst item)"

section \<open>Facts about the hash and the creation path\<close>

lemma QHash_value_insert:
  "QHash_value (QHash_insert key val items) k = (if k = key then Some val else QHash_value items k)"
  by (induction items) auto

lemma QHash_value_remove:
  "QHash_value (QHash_remove key items) k = (if k = key then None else QHash_value items k)"
  by (induction items) auto

lemma QHash_value_writeThrough:
  "QHash_value (writeThrough key val items) k =
     (if k = key \<and> QHash_value items key \<noteq> None then Some val else QHash_value items k)"
  by (induction items) (auto split: if_splits)

lemma QHash_value_None_iff: "QHash_value items key = None \<longleftrightarrow> key \<notin> set (map fst items)"
  by (induction items key rule: QHash_value.induct) auto

lemma QHash_value_in_set: "QHash_value items key = Some val \<Longrightarrow> (key, val) \<in> set items"
  by (induction items) (auto split: if_splits)

lemma keys_QHash_insert:
  "set (map fst (QHash_insert key val items)) = insert key (set (map fst items))"
  by (induction key val items rule: QHash_insert.induct) (auto simp: insert_commute)

lemma distinct_QHash_insert:
  "distinct (map fst items) \<Longrightarrow> distinct (map fst (QHash_insert key val items))"
  by (induction key val items rule: QHash_insert.induct)
    (auto simp add: keys_QHash_insert simp del: set_map)

lemma QHash_remove_filter: "QHash_remove key items = filter (\<lambda>item. fst item \<noteq> key) items"
  by (induction items) auto

lemma distinct_QHash_remove:
  "distinct (map fst items) \<Longrightarrow> distinct (map fst (QHash_remove key items))"
  by (simp add: QHash_remove_filter distinct_map_filter)

lemma QHash_remove_absent: "QHash_value items key = None \<Longrightarrow> QHash_remove key items = items"
  by (induction items) (auto split: if_splits)

lemma QHash_remove_twice: "QHash_remove key (QHash_remove key items) = QHash_remove key items"
  by (simp add: QHash_remove_filter)

lemma keys_writeThrough: "map fst (writeThrough key val items) = map fst items"
  by (induction items) auto

lemma writeThrough_same: "QHash_value items key = Some val \<Longrightarrow> writeThrough key val items = items"
  by (induction items) (auto split: if_splits)

lemma set_writeThrough: "set (writeThrough key val items) \<subseteq> insert (key, val) (set items)"
  by (induction items) (auto split: if_splits)

lemma set_QHash_insert: "set (QHash_insert key val items) \<subseteq> insert (key, val) (set items)"
  by (induction items) (auto split: if_splits)

lemma set_QHash_remove: "set (QHash_remove key items) \<subseteq> set items"
  by (induction items) (auto split: if_splits)

lemma valueOrAddAvatar_lastOwner:
  "lastOwnerSessionUUID (snd (valueOrAddAvatar u node this)) = lastOwnerSessionUUID this"
  by (simp add: valueOrAddAvatar_def addAvatar_def Let_def split: option.split)

lemma valueOrAddAvatar_value:
  "QHash_value (avatarHash (snd (valueOrAddAvatar u node this))) k =
     (if k = u then Some (fst (valueOrAddAvatar u node this)) else QHash_value (avatarHash this) k)"
  by (simp add: valueOrAddAvatar_def addAvatar_def Let_def QHash_value_insert split: option.split)

lemma valueOrAddAvatar_existing:
  "QHash_value (avatarHash this) u = Some avatar \<Longrightarrow> valueOrAddAvatar u node this = (avatar, this)"
  by (simp add: valueOrAddAvatar_def)

lemma getPayload_read [simp]: "getPayload (snd (read n packet)) = getPayload packet"
  by (simp add: read_def Let_def)

section \<open>One turn of the bulk-data loop\<close>

lemma body_echo:
  "fromRfc4122 (fst (read NUM_BYTES_RFC4122_UUID packet)) = lastOwnerSessionUUID this \<Longrightarrow>
   fst (processAvatarDataPacket_body parse node this packet) = this"
  by (simp add: processAvatarDataPacket_body_def Let_def case_prod_beta)

lemma body_peer:
  "fromRfc4122 (fst (read NUM_BYTES_RFC4122_UUID packet)) = u \<Longrightarrow>
   u \<noteq> lastOwnerSessionUUID this \<Longrightarrow>
   QHash_value (avatarHash (fst (processAvatarDataPacket_body parse node this packet))) k =
     (if k = u then
        Some (fst (parse (fst (valueOrAddAvatar u node this))
           (fromRawData (getPayload packet) (pos (snd (read NUM_BYTES_RFC4122_UUID packet))))))
      else QHash_value (avatarHash this) k)"
  by (simp add: processAvatarDataPacket_body_def Let_def case_prod_beta
      QHash_value_writeThrough valueOrAddAvatar_value)

section \<open>Range query\<close>

lemma isAvatarInRange_loop_iff:
  "isAvatarInRange_loop items P r \<longleftrightarrow>
     (\<exists>item \<in> set items. float_less (glm_distance (position (snd item)) P) r)"
  by (induction items P r rule: isAvatarInRange_loop.induct) (auto simp: Let_def)

lemma float_less_irrefl: "\<not> float_less r r"
  by (cases "decode r") (simp_all add: float_less_def)

lemmas round_defs = round32_def bits.simps roundToEven_def encode_def float_infinity_def
  float_nan_def Let_def

lemma decode_infinity: "decode (float_infinity s) = Infinity s"
  by (cases s) (simp_all add: float_infinity_def encode_def decode_def)

lemma decode_nan: "decode float_nan = NaN"
  by (simp add: float_nan_def encode_def decode_def)

lemma decode_zero: "decode 0 = Finite False 0 (- 149)"
  by (simp add: decode_def)

lemma float_sub_zero_zero: "float_sub 0 0 = 0"
  by (simp add: float_sub_def float_neg_def float_add_def decode_def encode_def)

lemma float_mul_zero_zero: "float_mul 0 0 = 0"
  by (simp add: float_mul_def decode_def) (simp add: round_defs)

lemma float_add_zero_zero: "float_add 0 0 = 0"
  by (simp add: float_add_def decode_def encode_def)

lemma float_sqrt_zero: "float_sqrt 0 = 0"
  by (simp add: float_sqrt_def decode_def)

text \<open>The square of \<open>2\<^sup>6\<^sup>5\<close> overflows to the infinity.\<close>

lemma decode_2_65: "decode 0x60000000 = Finite False (2 ^ 23) 42"
  by (simp add: decode_def)

lemma decode_2_66: "decode 0x60800000 = Finite False (2 ^ 23) 43"
  by (simp add: decode_def)

lemma float_sub_2_65: "float_sub 0x60000000 0 = 0x60000000"
  by (simp add: float_sub_def float_neg_def float_add_def decode_def) (simp add: round_defs)

lemma float_mul_2_65: "float_mul 0x60000000 0x60000000 = 0x7F800000"
  by (simp add: float_mul_def decode_def) (simp add: round_defs)

lemma float_add_inf_zero: "float_add 0x7F800000 0 = 0x7F800000"
  by (simp add: float_add_def decode_def float_infinity_def encode_def)

lemma float_sqrt_inf: "float_sqrt 0x7F800000 = 0x7F800000"
  by (simp add: float_sqrt_def decode_def)

lemma float_less_inf: "\<not> float_less 0x7F800000 0x60800000"
  by (simp add: float_less_def decode_def)

lemma distance_overflow: "glm_distance (0, 0, 0) (0x60000000, 0, 0) = 0x7F800000"
  by (simp add: glm_distance.simps float_sub_2_65 float_sub_zero_zero float_mul_2_65
      float_mul_zero_zero float_add_inf_zero float_sqrt_inf)

text \<open>The square of \<open>2\<^sup>-\<^sup>1\<^sup>0\<^sup>0\<close> underflows to zero.\<close>

lemma decode_2_m100: "decode 0x0D800000 = Finite False (2 ^ 23) (- 123)"
  by (simp add: decode_def)

lemma float_sub_2_m100: "float_sub 0x0D800000 0 = 0x0D800000"
  by (simp add: float_sub_def float_neg_def float_add_def decode_def) (simp add: round_defs)

lemma float_mul_2_m100: "float_mul 0x0D800000 0x0D800000 = 0"
  by (simp add: float_mul_def decode_def) (simp add: round_defs)

lemma float_less_zero_2_m100: "float_less 0 0x0D800000"
  by (simp add: float_less_def decode_def)

lemma distance_underflow: "glm_distance (0, 0, 0) (0x0D800000, 0, 0) = 0"
  by (simp add: glm_distance.simps float_sub_2_m100 float_sub_zero_zero float_mul_2_m100
      float_mul_zero_zero float_add_zero_zero float_sqrt_zero)

text \<open>The distance from the origin to \<open>(1, 2, 0)\<close> rounds to the float nearest the root of 5.\<close>

lemma decode_one: "decode 0x3F800000 = Finite False (2 ^ 23) (- 23)"
  by (simp add: decode_def)

lemma decode_two: "decode 0x40000000 = Finite False (2 ^ 23) (- 22)"
  by (simp add: decode_def)

lemma decode_root_5: "decode 0x400F1BBD = Finite False 9378749 (- 22)"
  by (simp add: decode_def)

lemma float_sub_1: "float_sub 0x3F800000 0 = 0x3F800000"
  by (simp add: float_sub_def float_neg_def float_add_def decode_def) (simp add: round_defs)

lemma float_sub_2: "float_sub 0x40000000 0 = 0x40000000"
  by (simp add: float_sub_def float_neg_def float_add_def decode_def) (simp add: round_defs)

lemma float_mul_1: "float_mul 0x3F800000 0x3F800000 = 0x3F800000"
  by (simp add: float_mul_def decode_def) (simp add: round_defs)

lemma float_mul_2: "float_mul 0x40000000 0x40000000 = 0x40800000"
  by (simp add: float_mul_def decode_def) (simp add: round_defs)

lemma float_add_1_4: "float_add 0x3F800000 0x40800000 = 0x40A00000"
  by (simp add: float_add_def decode_def) (simp add: round_defs)

lemma float_add_5_0: "float_add 0x40A00000 0 = 0x40A00000"
  by (simp add: float_add_def decode_def) (simp add: round_defs)

lemma float_sqrt_5: "float_sqrt 0x40A00000 = 0x400F1BBD"
  by (simp add: float_sqrt_def decode_def) (simp add: isqrt_def isqrt_bits.simps round_defs)

lemma distance_1_2: "glm_distance (0, 0, 0) (0x3F800000, 0x40000000, 0) = 0x400F1BBD"
  by (simp add: glm_distance.simps float_sub_1 float_sub_2 float_sub_zero_zero float_mul_1
      float_mul_2 float_mul_zero_zero float_add_1_4 float_add_5_0 float_sqrt_5)

text \<open>Known results of binary32 arithmetic, as a check of the definitions.\<close>

lemma float_sqrt_2: "float_sqrt 0x40000000 = 0x3FB504F3"
  by (simp add: float_sqrt_def decode_def) (simp add: isqrt_def isqrt_bits.simps round_defs)

lemma float_add_tenth_fifth: "float_add 0x3DCCCCCD 0x3E4CCCCD = 0x3E99999A"
  by (simp add: float_add_def decode_def) (simp add: round_defs)

lemma float_mul_tenth_tenth: "float_mul 0x3DCCCCCD 0x3DCCCCCD = 0x3C23D70B"
  by (simp add: float_mul_def decode_def) (simp add: round_defs)

lemma float_add_tie_to_even: "float_add 0x3F800000 0x33800000 = 0x3F800000"
  by (simp add: float_add_def decode_def) (simp add: round_defs)

lemma float_mul_max_overflows: "float_mul 0x7F7FFFFF 0x40000000 = 0x7F800000"
  by (simp add: float_mul_def decode_def) (simp add: round_defs)

lemma float_sub_subnormal: "float_sub 0x00800000 0x007FFFFF = 1"
  by (simp add: float_sub_def float_neg_def float_add_def decode_def) (simp add: round_defs)

text \<open>The distance from the origin to \<open>(3, 4, 0)\<close> is exactly 5.\<close>

lemma float_sub_3: "float_sub 0x40400000 0 = 0x40400000"
  by (simp add: float_sub_def float_neg_def float_add_def decode_def) (simp add: round_defs)

lemma float_sub_4: "float_sub 0x40800000 0 = 0x40800000"
  by (simp add: float_sub_def float_neg_def float_add_def decode_def) (simp add: round_defs)

lemma float_mul_3: "float_mul 0x40400000 0x40400000 = 0x41100000"
  by (simp add: float_mul_def decode_def) (simp add: round_defs)

lemma float_mul_4: "float_mul 0x40800000 0x40800000 = 0x41800000"
  by (simp add: float_mul_def decode_def) (simp add: round_defs)

lemma float_add_9_16: "float_add 0x41100000 0x41800000 = 0x41C80000"
  by (simp add: float_add_def decode_def) (simp add: round_defs)

lemma float_add_25_0: "float_add 0x41C80000 0 = 0x41C80000"
  by (simp add: float_add_def decode_def) (simp add: round_defs)

lemma float_sqrt_25: "float_sqrt 0x41C80000 = 0x40A00000"
  by (simp add: float_sqrt_def decode_def) (simp add: isqrt_def isqrt_bits.simps round_defs)

lemma distance_3_4: "glm_distance (0, 0, 0) (0x40400000, 0x40800000, 0) = 0x40A00000"
  by (simp add: glm_distance.simps float_sub_3 float_sub_4 float_sub_zero_zero float_mul_3
      float_mul_4 float_mul_zero_zero float_add_9_16 float_add_25_0 float_sqrt_25)

lemma float_less_zero_one: "float_less 0 0x3F800000"
  by (simp add: float_less_def decode_def)

lemma distance_zero: "glm_distance (0, 0, 0) (0, 0, 0) = 0"
  by (simp add: glm_distance.simps float_sub_zero_zero float_mul_zero_zero
      float_add_zero_zero float_sqrt_zero)

text \<open>
  Claim C3, as amended. \<^verbatim>\<open>isAvatarInRange(P, r)\<close> is true exactly when some avatar of the
  hash has a position whose distance to \<open>P\<close>, as \<^verbatim>\<open>glm::distance\<close> computes it in
  float arithmetic, is less than \<open>r\<close> in the comparison of floats; when every avatar is
  at a computed distance equal to \<open>r\<close> it is false; the object is left as it was.
\<close>

theorem isAvatarInRange_float_strict:
  "(fst (isAvatarInRange P r this) \<longleftrightarrow>
      (\<exists>item \<in> set (avatarHash this).
         float_less (glm_distance (position (snd item)) P) r))
   \<and> ((\<forall>item \<in> set (avatarHash this). glm_distance (position (snd item)) P = r) \<longrightarrow>
        \<not> fst (isAvatarInRange P r this))
   \<and> snd (isAvatarInRange P r this) = this"
  by (auto simp: isAvatarInRange_def isAvatarInRange_loop_iff float_less_irrefl)

theorem isAvatarInRange_float_strict_witness:
  "fst (isAvatarInRange (0, 0, 0) 0x3F800000
      \<lparr>avatarHash = [(1, newAvatarData\<lparr>sessionUUID := 1\<rparr>)], lastOwnerSessionUUID = 0\<rparr>)
   \<and> glm_distance (position (newAvatarData\<lparr>sessionUUID := 1\<rparr>))
        (0x40400000, 0x40800000, 0) = 0x40A00000
   \<and> \<not> fst (isAvatarInRange (0x40400000, 0x40800000, 0) 0x40A00000
      \<lparr>avatarHash = [(1, newAvatarData\<lparr>sessionUUID := 1\<rparr>)], lastOwnerSessionUUID = 0\<rparr>)"
proof -
  let ?s = "\<lparr>avatarHash = [(1, newAvatarData\<lparr>sessionUUID := 1\<rparr>)], lastOwnerSessionUUID = 0\<rparr>"
  have p: "position (newAvatarData\<lparr>sessionUUID := 1\<rparr>) = (0, 0, 0)"
    by (simp add: newAvatarData_def)
  have near: "\<exists>item \<in> set (avatarHash ?s).
      float_less (glm_distance (position (snd item)) (0, 0, 0)) 0x3F800000"
    by (simp add: p distance_zero float_less_zero_one)
  have edge: "\<forall>item \<in> set (avatarHash ?s).
      glm_distance (position (snd item)) (0x40400000, 0x40800000, 0) = 0x40A00000"
    by (simp add: p distance_3_4)
  from isAvatarInRange_float_strict [of "(0, 0, 0)" "0x3F800000" ?s] near
  have a: "fst (isAvatarInRange (0, 0, 0) 0x3F800000 ?s)"
    by blast
  from isAvatarInRange_float_strict [of "(0x40400000, 0x40800000, 0)" "0x40A00000" ?s] edge
  have b: "\<not> fst (isAvatarInRange (0x40400000, 0x40800000, 0) 0x40A00000 ?s)"
    by blast
  show ?thesis
    using a b by (simp add: p distance_3_4)
qed

text \<open>
  Claim C3 as it was stated, with the straight-line distance of the points: it fails at
  floats in three ways. The avatar is at the origin throughout.
  \<^item> \<open>P = (2\<^sup>6\<^sup>5, 0, 0)\<close>, \<open>r = 2\<^sup>6\<^sup>6\<close>: the distance \<open>2\<^sup>6\<^sup>5\<close> is less than \<open>r\<close>, but the
    square overflows and the function returns false.
  \<^item> \<open>P = (2\<^sup>-\<^sup>1\<^sup>0\<^sup>0, 0, 0)\<close>, \<open>r = 2\<^sup>-\<^sup>1\<^sup>0\<^sup>0\<close>: the distance is exactly \<open>r\<close>, but the
    square underflows to zero and the function returns true.
  \<^item> \<open>P = (1, 2, 0)\<close>, \<open>r\<close> the float nearest the root of 5, which is above it: the
    distance is less than \<open>r\<close>, but the computed distance rounds to \<open>r\<close> and the function
    returns false.
\<close>

theorem isAvatarInRange_euclidean_counterexample:
  "decode 0 = Finite False 0 (- 149)
   \<and> decode 0x60000000 = Finite False (2 ^ 23) 42
   \<and> decode 0x60800000 = Finite False (2 ^ 23) 43
   \<and> euclidean (finite_value False 0 (- 149), finite_value False 0 (- 149),
                 finite_value False 0 (- 149))
               (finite_value False (2 ^ 23) 42, finite_value False 0 (- 149),
                 finite_value False 0 (- 149))
       < finite_value False (2 ^ 23) 43
   \<and> \<not> fst (isAvatarInRange (0x60000000, 0, 0) 0x60800000
        \<lparr>avatarHash = [(1, newAvatarData\<lparr>sessionUUID := 1\<rparr>)], lastOwnerSessionUUID = 0\<rparr>)
   \<and> decode 0x0D800000 = Finite False (2 ^ 23) (- 123)
   \<and> euclidean (finite_value False 0 (- 149), finite_value False 0 (- 149),
                 finite_value False 0 (- 149))
               (finite_value False (2 ^ 23) (- 123), finite_value False 0 (- 149),
                 finite_value False 0 (- 149))
       = finite_value False (2 ^ 23) (- 123)
   \<and> fst (isAvatarInRange (0x0D800000, 0, 0) 0x0D800000
        \<lparr>avatarHash = [(1, newAvatarData\<lparr>sessionUUID := 1\<rparr>)], lastOwnerSessionUUID = 0\<rparr>)
   \<and> decode 0x3F800000 = Finite False (2 ^ 23) (- 23)
   \<and> decode 0x40000000 = Finite False (2 ^ 23) (- 22)
   \<and> decode 0x400F1BBD = Finite False 9378749 (- 22)
   \<and> euclidean (finite_value False 0 (- 149), finite_value False 0 (- 149),
                 finite_value False 0 (- 149))
               (finite_value False (2 ^ 23) (- 23), finite_value False (2 ^ 23) (- 22),
                 finite_value False 0 (- 149))
       < finite_value False 9378749 (- 22)
   \<and> \<not> fst (isAvatarInRange (0x3F800000, 0x40000000, 0) 0x400F1BBD
        \<lparr>avatarHash = [(1, newAvatarData\<lparr>sessionUUID := 1\<rparr>)], lastOwnerSessionUUID = 0\<rparr>)"
proof -
  have p: "position (newAvatarData\<lparr>sessionUUID := 1\<rparr>) = (0, 0, 0)"
    by (simp add: newAvatarData_def)
  have over: "\<not> fst (isAvatarInRange (0x60000000, 0, 0) 0x60800000
        \<lparr>avatarHash = [(1, newAvatarData\<lparr>sessionUUID := 1\<rparr>)], lastOwnerSessionUUID = 0\<rparr>)"
    by (simp add: isAvatarInRange_def p distance_overflow float_less_inf)
  have under: "fst (isAvatarInRange (0x0D800000, 0, 0) 0x0D800000
        \<lparr>avatarHash = [(1, newAvatarData\<lparr>sessionUUID := 1\<rparr>)], lastOwnerSessionUUID = 0\<rparr>)"
    by (simp add: isAvatarInRange_def p distance_underflow float_less_zero_2_m100)
  have rounded: "\<not> fst (isAvatarInRange (0x3F800000, 0x40000000, 0) 0x400F1BBD
        \<lparr>avatarHash = [(1, newAvatarData\<lparr>sessionUUID := 1\<rparr>)], lastOwnerSessionUUID = 0\<rparr>)"
    by (simp add: isAvatarInRange_def p distance_1_2 float_less_irrefl)
  have v: "finite_value False 0 (- 149) = 0" "finite_value False (2 ^ 23) 42 = 2 ^ 65"
    "finite_value False (2 ^ 23) 43 = 2 ^ 66" "finite_value False (2 ^ 23) (- 123) = 1 / 2 ^ 100"
    "finite_value False (2 ^ 23) (- 23) = 1" "finite_value False (2 ^ 23) (- 22) = 2"
    "finite_value False 9378749 (- 22) = 9378749 / 4194304"
    by (simp_all add: finite_value_def)
  have e1: "euclidean (finite_value False 0 (- 149), finite_value False 0 (- 149),
                 finite_value False 0 (- 149))
               (finite_value False (2 ^ 23) 42, finite_value False 0 (- 149),
                 finite_value False 0 (- 149))
       < finite_value False (2 ^ 23) 43"
    unfolding v by (simp add: real_sqrt_mult)
  have e2: "euclidean (finite_value False 0 (- 149), finite_value False 0 (- 149),
                 finite_value False 0 (- 149))
               (finite_value False (2 ^ 23) (- 123), finite_value False 0 (- 149),
                 finite_value False 0 (- 149))
       = finite_value False (2 ^ 23) (- 123)"
    unfolding v by (simp add: real_sqrt_mult real_sqrt_divide)
  have "sqrt 5 < 9378749 / (4194304 :: real)"
    by (rule real_less_lsqrt) (simp_all add: power2_eq_square)
  then have e3: "euclidean (finite_value False 0 (- 149), finite_value False 0 (- 149),
                 finite_value False 0 (- 149))
               (finite_value False (2 ^ 23) (- 23), finite_value False (2 ^ 23) (- 22),
                 finite_value False 0 (- 149))
       < finite_value False 9378749 (- 22)"
    unfolding v by simp
  show ?thesis
    using over under rounded e1 e2 e3 decode_zero decode_2_65 decode_2_66 decode_2_m100
      decode_one decode_two decode_root_5
    by blast
qed

section \<open>Removal\<close>

text \<open>
  Claim C4. Removing a session UUID, directly or through a kill packet, leaves exactly the
  items of the other UUIDs: the UUID has no avatar afterwards, every other UUID keeps its
  avatar, a second removal changes nothing more, and removing a UUID that has no avatar
  leaves the object as it was. The function is total: there is no failing branch.
\<close>

theorem removeAvatar_deletes_or_noop:
  "avatarHash (removeAvatar u this) = filter (\<lambda>item. fst item \<noteq> u) (avatarHash this)
   \<and> lastOwnerSessionUUID (removeAvatar u this) = lastOwnerSessionUUID this
   \<and> QHash_value (avatarHash (removeAvatar u this)) u = None
   \<and> (\<forall>k. k \<noteq> u \<longrightarrow>
         QHash_value (avatarHash (removeAvatar u this)) k = QHash_value (avatarHash this) k)
   \<and> removeAvatar u (removeAvatar u this) = removeAvatar u this
   \<and> (QHash_value (avatarHash this) u = None \<longrightarrow> removeAvatar u this = this)
   \<and> processKillAvatar packet sendingNode this =
       removeAvatar (fromRfc4122 (fst (read NUM_BYTES_RFC4122_UUID packet))) this"
  by (simp add: removeAvatar_def processKillAvatar_def QHash_value_remove QHash_remove_twice
      QHash_remove_absent QHash_remove_filter [symmetric] split: prod.split)

theorem removeAvatar_deletes_or_noop_witness:
  "QHash_value (avatarHash (removeAvatar 1
      (snd (addAvatar 2 None (snd (addAvatar 1 None newAvatarHashMap)))))) 1 = None
   \<and> QHash_value (avatarHash (removeAvatar 1
      (snd (addAvatar 2 None (snd (addAvatar 1 None newAvatarHashMap)))))) 2 =
     QHash_value (avatarHash (snd (addAvatar 2 None (snd (addAvatar 1 None newAvatarHashMap))))) 2
   \<and> removeAvatar 7 (snd (addAvatar 2 None (snd (addAvatar 1 None newAvatarHashMap)))) =
     snd (addAvatar 2 None (snd (addAvatar 1 None newAvatarHashMap)))"
  using removeAvatar_deletes_or_noop
          [of 1 "snd (addAvatar 2 None (snd (addAvatar 1 None newAvatarHashMap)))"]
        removeAvatar_deletes_or_noop
          [of 7 "snd (addAvatar 2 None (snd (addAvatar 1 None newAvatarHashMap)))"]
  by (simp add: addAvatar_def newAvatarHashMap_def Let_def)

section \<open>The last owner UUID\<close>

text \<open>
  Claim C8. \<^verbatim>\<open>sessionUUIDChanged(newId, oldId)\<close> stores \<open>oldId\<close> as the last owner
  UUID and touches nothing else. After two changes the slot holds the second old UUID:
  a bulk sub-record of that UUID leaves the object as it was, while a sub-record of the
  first old UUID (when the two differ) is parsed into the avatar of that UUID.
\<close>

theorem sessionUUIDChanged_single_slot:
  "lastOwnerSessionUUID (sessionUUIDChanged newId oldId this) = oldId
   \<and> avatarHash (sessionUUIDChanged newId oldId this) = avatarHash this
   \<and> lastOwnerSessionUUID
        (sessionUUIDChanged new2 old2 (sessionUUIDChanged new1 old1 this)) = old2
   \<and> (fromRfc4122 (fst (read NUM_BYTES_RFC4122_UUID packet)) = old2 \<longrightarrow>
        fst (processAvatarDataPacket_body parse node
              (sessionUUIDChanged new2 old2 (sessionUUIDChanged new1 old1 this)) packet) =
          sessionUUIDChanged new2 old2 (sessionUUIDChanged new1 old1 this))
   \<and> (fromRfc4122 (fst (read NUM_BYTES_RFC4122_UUID packet)) = old1 \<and> old1 \<noteq> old2 \<longrightarrow>
        QHash_value (avatarHash (fst (processAvatarDataPacket_body parse node
              (sessionUUIDChanged new2 old2 (sessionUUIDChanged new1 old1 this)) packet))) old1 =
          Some (fst (parse
            (fst (valueOrAddAvatar old1 node
               (sessionUUIDChanged new2 old2 (sessionUUIDChanged new1 old1 this))))
            (fromRawData (getPayload packet) (pos (snd (read NUM_BYTES_RFC4122_UUID packet)))))))"
proof -
  let ?s = "sessionUUIDChanged new2 old2 (sessionUUIDChanged new1 old1 this)"
  have last: "lastOwnerSessionUUID ?s = old2"
    by (simp add: sessionUUIDChanged_def)
  have echo: "fromRfc4122 (fst (read NUM_BYTES_RFC4122_UUID packet)) = old2 \<longrightarrow>
      fst (processAvatarDataPacket_body parse node ?s packet) = ?s"
    using body_echo [of packet ?s parse node] last by simp
  have peer: "fromRfc4122 (fst (read NUM_BYTES_RFC4122_UUID packet)) = old1 \<and> old1 \<noteq> old2 \<longrightarrow>
      QHash_value (avatarHash (fst (processAvatarDataPacket_body parse node ?s packet))) old1 =
        Some (fst (parse (fst (valueOrAddAvatar old1 node ?s))
          (fromRawData (getPayload packet) (pos (snd (read NUM_BYTES_RFC4122_UUID packet))))))"
    using body_peer [of packet old1 ?s parse node old1] last by simp
  show ?thesis
    using last echo peer by (simp add: sessionUUIDChanged_def)
qed

theorem sessionUUIDChanged_single_slot_witness:
  "fromRfc4122 (fst (read NUM_BYTES_RFC4122_UUID
       (newPacket [0,0,0,0,0,0,0,0,0,0,0,0,0,0,0,1,2,7,7]))) = 1
   \<and> (1 :: QUuid) \<noteq> 2
   \<and> QHash_value (avatarHash (fst (processAvatarDataPacket_body lengthPrefixedParse None
         (sessionUUIDChanged 20 2 (sessionUUIDChanged 10 1 newAvatarHashMap))
         (newPacket [0,0,0,0,0,0,0,0,0,0,0,0,0,0,0,1,2,7,7])))) 1 \<noteq> None
   \<and> fst (processAvatarDataPacket_body lengthPrefixedParse None
         (sessionUUIDChanged 20 2 (sessionUUIDChanged 10 1 newAvatarHashMap))
         (newPacket [0,0,0,0,0,0,0,0,0,0,0,0,0,0,0,2,2,7,7])) =
       sessionUUIDChanged 20 2 (sessionUUIDChanged 10 1 newAvatarHashMap)"
proof -
  have a: "fromRfc4122 (fst (read NUM_BYTES_RFC4122_UUID
       (newPacket [0,0,0,0,0,0,0,0,0,0,0,0,0,0,0,1,2,7,7]))) = 1"
    by (simp add: read_def newPacket_def NUM_BYTES_RFC4122_UUID_def Let_def fromRfc4122_def
        word_rcat_def)
  have b: "fromRfc4122 (fst (read NUM_BYTES_RFC4122_UUID
       (newPacket [0,0,0,0,0,0,0,0,0,0,0,0,0,0,0,2,2,7,7]))) = 2"
    by (simp add: read_def newPacket_def NUM_BYTES_RFC4122_UUID_def Let_def fromRfc4122_def
        word_rcat_def)
  have c: "(1 :: QUuid) \<noteq> 2"
    by simp
  show ?thesis
    using a b c
      sessionUUIDChanged_single_slot [of 20 2 newAvatarHashMap 20 2 10 1
        "newPacket [0,0,0,0,0,0,0,0,0,0,0,0,0,0,0,1,2,7,7]" lengthPrefixedParse None]
      sessionUUIDChanged_single_slot [of 20 2 newAvatarHashMap 20 2 10 1
        "newPacket [0,0,0,0,0,0,0,0,0,0,0,0,0,0,0,2,2,7,7]" lengthPrefixedParse None]
    by simp
qed

section \<open>Identity and billboard packets\<close>

lemma identity_body_value:
  "QHash_value (avatarHash (processAvatarIdentityPacket_body (u, f, s, att, d) node this)) k =
     (if k = u then
        Some (fst (valueOrAddAvatar u node this)
          \<lparr>faceModelURL := f, skeletonModelURL := s, attachmentData := att, displayName := d,
           setterCalls := setterCalls (fst (valueOrAddAvatar u node this))
             @ (if faceModelURL (fst (valueOrAddAvatar u node this)) \<noteq> f
                then [SetFaceModelURL] else [])
             @ (if skeletonModelURL (fst (valueOrAddAvatar u node this)) \<noteq> s
                then [SetSkeletonModelURL] else [])
             @ (if attachmentData (fst (valueOrAddAvatar u node this)) \<noteq> att
                then [SetAttachmentData] else [])
             @ (if displayName (fst (valueOrAddAvatar u node this)) \<noteq> d
                then [SetDisplayName] else [])\<rparr>)
      else QHash_value (avatarHash this) k)"
  by (simp add: Let_def case_prod_beta QHash_value_writeThrough valueOrAddAvatar_value
      setFaceModelURL_def setSkeletonModelURL_def setAttachmentData_def setDisplayName_def)

lemma identity_body_lastOwner:
  "lastOwnerSessionUUID (processAvatarIdentityPacket_body tuple node this) =
     lastOwnerSessionUUID this"
  by (cases tuple) (simp add: Let_def case_prod_beta valueOrAddAvatar_lastOwner)

lemma identity_body_same:
  "QHash_value (avatarHash this) u = Some a \<Longrightarrow>
   processAvatarIdentityPacket_body
     (u, faceModelURL a, skeletonModelURL a, attachmentData a, displayName a) node this = this"
  by (simp add: Let_def valueOrAddAvatar_existing writeThrough_same)

lemma billboard_value:
  "QHash_value (avatarHash (processAvatarBillboardPacket (newPacket bytes) node this)) k =
     (if k = fromRfc4122 (take 16 bytes) then
        Some (if billboard (fst (valueOrAddAvatar (fromRfc4122 (take 16 bytes)) node this))
                   \<noteq> drop 16 bytes
              then setBillboard (drop 16 bytes)
                     (fst (valueOrAddAvatar (fromRfc4122 (take 16 bytes)) node this))
              else fst (valueOrAddAvatar (fromRfc4122 (take 16 bytes)) node this))
      else QHash_value (avatarHash this) k)"
  by (simp add: processAvatarBillboardPacket_def Let_def case_prod_beta read_def newPacket_def
      bytesAvailable_def NUM_BYTES_RFC4122_UUID_def QHash_value_writeThrough
      valueOrAddAvatar_value min_def)

lemma billboard_lastOwner:
  "lastOwnerSessionUUID (processAvatarBillboardPacket packet node this) =
     lastOwnerSessionUUID this"
  by (simp add: processAvatarBillboardPacket_def Let_def case_prod_beta
      valueOrAddAvatar_lastOwner)

lemma billboard_same:
  "QHash_value (avatarHash this) (fromRfc4122 (take 16 bytes)) = Some a \<Longrightarrow>
   billboard a = drop 16 bytes \<Longrightarrow>
   processAvatarBillboardPacket (newPacket bytes) node this = this"
  by (simp add: processAvatarBillboardPacket_def Let_def case_prod_beta read_def newPacket_def
      bytesAvailable_def NUM_BYTES_RFC4122_UUID_def valueOrAddAvatar_existing
      writeThrough_same min_def)

text \<open>
  Claim C5. An identity tuple for a UUID that has an avatar \<open>a\<close> leaves each of the four
  fields at the incoming value and calls exactly the setters whose incoming value differs
  from the stored one, in the order of the source. A tuple equal to the stored values
  leaves the object as it was; a tuple with one differing value changes that field only
  (and records its setter). Avatars of other UUIDs, the keys of the hash and the last
  owner UUID are as before.
\<close>

theorem identity_writes_only_differences:
  assumes "QHash_value (avatarHash this) u = Some a"
  shows
  "QHash_value (avatarHash (processAvatarIdentityPacket [(u, f, s, att, d)] node this)) u =
     Some (a\<lparr>faceModelURL := f, skeletonModelURL := s, attachmentData := att, displayName := d,
             setterCalls := setterCalls a
               @ (if faceModelURL a \<noteq> f then [SetFaceModelURL] else [])
               @ (if skeletonModelURL a \<noteq> s then [SetSkeletonModelURL] else [])
               @ (if attachmentData a \<noteq> att then [SetAttachmentData] else [])
               @ (if displayName a \<noteq> d then [SetDisplayName] else [])\<rparr>)
   \<and> (\<forall>k. k \<noteq> u \<longrightarrow>
        QHash_value (avatarHash (processAvatarIdentityPacket [(u, f, s, att, d)] node this)) k =
          QHash_value (avatarHash this) k)
   \<and> map fst (avatarHash (processAvatarIdentityPacket [(u, f, s, att, d)] node this)) =
       map fst (avatarHash this)
   \<and> lastOwnerSessionUUID (processAvatarIdentityPacket [(u, f, s, att, d)] node this) =
       lastOwnerSessionUUID this
   \<and> (f = faceModelURL a \<and> s = skeletonModelURL a \<and> att = attachmentData a
        \<and> d = displayName a \<longrightarrow>
        processAvatarIdentityPacket [(u, f, s, att, d)] node this = this)
   \<and> (f \<noteq> faceModelURL a \<and> s = skeletonModelURL a \<and> att = attachmentData a
        \<and> d = displayName a \<longrightarrow>
        QHash_value (avatarHash (processAvatarIdentityPacket [(u, f, s, att, d)] node this)) u =
          Some (a\<lparr>faceModelURL := f, setterCalls := setterCalls a @ [SetFaceModelURL]\<rparr>))
   \<and> (f = faceModelURL a \<and> s \<noteq> skeletonModelURL a \<and> att = attachmentData a
        \<and> d = displayName a \<longrightarrow>
        QHash_value (avatarHash (processAvatarIdentityPacket [(u, f, s, att, d)] node this)) u =
          Some (a\<lparr>skeletonModelURL := s,
                  setterCalls := setterCalls a @ [SetSkeletonModelURL]\<rparr>))
   \<and> (f = faceModelURL a \<and> s = skeletonModelURL a \<and> att \<noteq> attachmentData a
        \<and> d = displayName a \<longrightarrow>
        QHash_value (avatarHash (processAvatarIdentityPacket [(u, f, s, att, d)] node this)) u =
          Some (a\<lparr>attachmentData := att, setterCalls := setterCalls a @ [SetAttachmentData]\<rparr>))
   \<and> (f = faceModelURL a \<and> s = skeletonModelURL a \<and> att = attachmentData a
        \<and> d \<noteq> displayName a \<longrightarrow>
        QHash_value (avatarHash (processAvatarIdentityPacket [(u, f, s, att, d)] node this)) u =
          Some (a\<lparr>displayName := d, setterCalls := setterCalls a @ [SetDisplayName]\<rparr>))"
proof -
  let ?r = "processAvatarIdentityPacket [(u, f, s, att, d)] node this"
  have r: "?r = processAvatarIdentityPacket_body (u, f, s, att, d) node this"
    by simp
  have base: "fst (valueOrAddAvatar u node this) = a"
    using assms by (simp add: valueOrAddAvatar_existing)
  have val: "\<And>k. QHash_value (avatarHash ?r) k =
     (if k = u then
        Some (a\<lparr>faceModelURL := f, skeletonModelURL := s, attachmentData := att,
                displayName := d,
                setterCalls := setterCalls a
                  @ (if faceModelURL a \<noteq> f then [SetFaceModelURL] else [])
                  @ (if skeletonModelURL a \<noteq> s then [SetSkeletonModelURL] else [])
                  @ (if attachmentData a \<noteq> att then [SetAttachmentData] else [])
                  @ (if displayName a \<noteq> d then [SetDisplayName] else [])\<rparr>)
      else QHash_value (avatarHash this) k)"
    unfolding r identity_body_value base by (rule refl)
  have keys: "map fst (avatarHash ?r) = map fst (avatarHash this)"
    using assms
    by (simp add: Let_def valueOrAddAvatar_existing keys_writeThrough)
  have last: "lastOwnerSessionUUID ?r = lastOwnerSessionUUID this"
    unfolding r by (rule identity_body_lastOwner)
  have same: "f = faceModelURL a \<and> s = skeletonModelURL a \<and> att = attachmentData a
        \<and> d = displayName a \<longrightarrow> ?r = this"
    unfolding r using identity_body_same [OF assms, of node] by auto
  have v: "QHash_value (avatarHash ?r) u =
      Some (a\<lparr>faceModelURL := f, skeletonModelURL := s, attachmentData := att,
                displayName := d,
                setterCalls := setterCalls a
                  @ (if faceModelURL a \<noteq> f then [SetFaceModelURL] else [])
                  @ (if skeletonModelURL a \<noteq> s then [SetSkeletonModelURL] else [])
                  @ (if attachmentData a \<noteq> att then [SetAttachmentData] else [])
                  @ (if displayName a \<noteq> d then [SetDisplayName] else [])\<rparr>)"
    using val [of u] by simp
  have others: "\<forall>k. k \<noteq> u \<longrightarrow> QHash_value (avatarHash ?r) k = QHash_value (avatarHash this) k"
    using val by simp
  have one_f: "f \<noteq> faceModelURL a \<and> s = skeletonModelURL a \<and> att = attachmentData a
        \<and> d = displayName a \<longrightarrow>
        QHash_value (avatarHash ?r) u =
          Some (a\<lparr>faceModelURL := f, setterCalls := setterCalls a @ [SetFaceModelURL]\<rparr>)"
    unfolding v by (cases a) auto
  have one_s: "f = faceModelURL a \<and> s \<noteq> skeletonModelURL a \<and> att = attachmentData a
        \<and> d = displayName a \<longrightarrow>
        QHash_value (avatarHash ?r) u =
          Some (a\<lparr>skeletonModelURL := s,
                  setterCalls := setterCalls a @ [SetSkeletonModelURL]\<rparr>)"
    unfolding v by (cases a) auto
  have one_att: "f = faceModelURL a \<and> s = skeletonModelURL a \<and> att \<noteq> attachmentData a
        \<and> d = displayName a \<longrightarrow>
        QHash_value (avatarHash ?r) u =
          Some (a\<lparr>attachmentData := att, setterCalls := setterCalls a @ [SetAttachmentData]\<rparr>)"
    unfolding v by (cases a) auto
  have one_d: "f = faceModelURL a \<and> s = skeletonModelURL a \<and> att = attachmentData a
        \<and> d \<noteq> displayName a \<longrightarrow>
        QHash_value (avatarHash ?r) u =
          Some (a\<lparr>displayName := d, setterCalls := setterCalls a @ [SetDisplayName]\<rparr>)"
    unfolding v by (cases a) auto
  show ?thesis
    using v others keys last same one_f one_s one_att one_d by blast
qed

theorem identity_writes_only_differences_witness:
  "QHash_value (avatarHash
      \<lparr>avatarHash = [(1, newAvatarData\<lparr>sessionUUID := 1\<rparr>)], lastOwnerSessionUUID = 0\<rparr>) 1 =
     Some (newAvatarData\<lparr>sessionUUID := 1\<rparr>)
   \<and> QHash_value (avatarHash (processAvatarIdentityPacket [(1, [], [], [], ''Bob'')] None
      \<lparr>avatarHash = [(1, newAvatarData\<lparr>sessionUUID := 1\<rparr>)], lastOwnerSessionUUID = 0\<rparr>)) 1 =
     Some (newAvatarData\<lparr>sessionUUID := 1, displayName := ''Bob'',
                          setterCalls := [SetDisplayName]\<rparr>)
   \<and> processAvatarIdentityPacket [(1, [], [], [], [])] None
      \<lparr>avatarHash = [(1, newAvatarData\<lparr>sessionUUID := 1\<rparr>)], lastOwnerSessionUUID = 0\<rparr> =
     \<lparr>avatarHash = [(1, newAvatarData\<lparr>sessionUUID := 1\<rparr>)], lastOwnerSessionUUID = 0\<rparr>"
proof -
  let ?s = "\<lparr>avatarHash = [(1, newAvatarData\<lparr>sessionUUID := 1\<rparr>)], lastOwnerSessionUUID = 0\<rparr>"
  have h: "QHash_value (avatarHash ?s) 1 = Some (newAvatarData\<lparr>sessionUUID := 1\<rparr>)"
    by simp
  show ?thesis
    using h identity_writes_only_differences [OF h, of "[]" "[]" "[]" "''Bob''" None]
      identity_writes_only_differences [OF h, of "[]" "[]" "[]" "[]" None]
    by (simp add: newAvatarData_def del: processAvatarIdentityPacket.simps)
qed

text \<open>
  Claim C6. The billboard handler reads the UUID from the first 16 bytes and takes the
  rest of the payload as the billboard. The avatar it works on is the one of the UUID, or
  a new one (default fields, the UUID, the sending node) when there is none; its billboard
  is set, through the setter, only when the incoming bytes differ, and no other field
  changes. An existing avatar with the same billboard leaves the object as it was.
  Avatars of other UUIDs and the last owner UUID are as before.
\<close>

theorem billboard_packet_replaces_blob:
  "QHash_value (avatarHash (processAvatarBillboardPacket (newPacket bytes) node this))
      (fromRfc4122 (take 16 bytes)) =
     Some (if billboard (fst (valueOrAddAvatar (fromRfc4122 (take 16 bytes)) node this))
                \<noteq> drop 16 bytes
           then (fst (valueOrAddAvatar (fromRfc4122 (take 16 bytes)) node this))
                  \<lparr>billboard := drop 16 bytes,
                   setterCalls :=
                     setterCalls (fst (valueOrAddAvatar (fromRfc4122 (take 16 bytes)) node this))
                       @ [SetBillboard]\<rparr>
           else fst (valueOrAddAvatar (fromRfc4122 (take 16 bytes)) node this))
   \<and> (QHash_value (avatarHash this) (fromRfc4122 (take 16 bytes)) = Some a \<longrightarrow>
        fst (valueOrAddAvatar (fromRfc4122 (take 16 bytes)) node this) = a)
   \<and> (QHash_value (avatarHash this) (fromRfc4122 (take 16 bytes)) = None \<longrightarrow>
        fst (valueOrAddAvatar (fromRfc4122 (take 16 bytes)) node this) =
          newAvatarData\<lparr>sessionUUID := fromRfc4122 (take 16 bytes), owningAvatarMixer := node\<rparr>)
   \<and> (QHash_value (avatarHash this) (fromRfc4122 (take 16 bytes)) = Some a
        \<and> billboard a = drop 16 bytes \<longrightarrow>
        processAvatarBillboardPacket (newPacket bytes) node this = this)
   \<and> (\<forall>k. k \<noteq> fromRfc4122 (take 16 bytes) \<longrightarrow>
        QHash_value (avatarHash (processAvatarBillboardPacket (newPacket bytes) node this)) k =
          QHash_value (avatarHash this) k)
   \<and> lastOwnerSessionUUID (processAvatarBillboardPacket (newPacket bytes) node this) =
       lastOwnerSessionUUID this"
proof -
  let ?u = "fromRfc4122 (take 16 bytes)"
  let ?r = "processAvatarBillboardPacket (newPacket bytes) node this"
  have v: "QHash_value (avatarHash ?r) ?u =
     Some (if billboard (fst (valueOrAddAvatar ?u node this)) \<noteq> drop 16 bytes
           then (fst (valueOrAddAvatar ?u node this))
                  \<lparr>billboard := drop 16 bytes,
                   setterCalls := setterCalls (fst (valueOrAddAvatar ?u node this))
                       @ [SetBillboard]\<rparr>
           else fst (valueOrAddAvatar ?u node this))"
    by (simp add: billboard_value setBillboard_def)
  have present: "QHash_value (avatarHash this) ?u = Some a \<longrightarrow>
      fst (valueOrAddAvatar ?u node this) = a"
    by (simp add: valueOrAddAvatar_existing)
  have absent: "QHash_value (avatarHash this) ?u = None \<longrightarrow>
      fst (valueOrAddAvatar ?u node this) =
        newAvatarData\<lparr>sessionUUID := ?u, owningAvatarMixer := node\<rparr>"
    by (simp add: valueOrAddAvatar_def addAvatar_def Let_def newSharedAvatar_def
        setSessionUUID_def setOwningAvatarMixer_def)
  have same: "QHash_value (avatarHash this) ?u = Some a \<and> billboard a = drop 16 bytes \<longrightarrow>
      ?r = this"
    using billboard_same [of this bytes a node] by simp
  have others: "\<forall>k. k \<noteq> ?u \<longrightarrow>
      QHash_value (avatarHash ?r) k = QHash_value (avatarHash this) k"
    by (simp add: billboard_value)
  have last: "lastOwnerSessionUUID ?r = lastOwnerSessionUUID this"
    by (rule billboard_lastOwner)
  show ?thesis
    using v present absent same others last by blast
qed

theorem billboard_packet_replaces_blob_witness:
  "QHash_value (avatarHash newAvatarHashMap)
      (fromRfc4122 (take 16 [0,0,0,0,0,0,0,0,0,0,0,0,0,0,0,1,9,8])) = None
   \<and> QHash_value (avatarHash (processAvatarBillboardPacket
        (newPacket [0,0,0,0,0,0,0,0,0,0,0,0,0,0,0,1,9,8]) (Some 3) newAvatarHashMap)) 1 =
     Some (newAvatarData\<lparr>sessionUUID := 1, owningAvatarMixer := Some 3, billboard := [9, 8],
                          setterCalls := [SetBillboard]\<rparr>)"
proof -
  have u: "fromRfc4122 (take 16 [0,0,0,0,0,0,0,0,0,0,0,0,0,0,0,1,9,8]) = 1"
    by (simp add: fromRfc4122_def word_rcat_def)
  have h: "QHash_value (avatarHash newAvatarHashMap)
      (fromRfc4122 (take 16 [0,0,0,0,0,0,0,0,0,0,0,0,0,0,0,1,9,8])) = None"
    by (simp add: newAvatarHashMap_def)
  show ?thesis
    using h u billboard_packet_replaces_blob
      [of "[0,0,0,0,0,0,0,0,0,0,0,0,0,0,0,1,9,8]" "Some 3" newAvatarHashMap]
    by (simp add: newAvatarData_def)
qed

section \<open>The handlers that do not filter\<close>

lemma valueOrAddAvatar_lastOwner_update:
  "valueOrAddAvatar u node (this\<lparr>lastOwnerSessionUUID := X\<rparr>) =
     (fst (valueOrAddAvatar u node this),
      (snd (valueOrAddAvatar u node this))\<lparr>lastOwnerSessionUUID := X\<rparr>)"
  by (simp add: valueOrAddAvatar_def addAvatar_def Let_def split: option.split)

lemma identity_body_lastOwner_update:
  "processAvatarIdentityPacket_body tuple node (this\<lparr>lastOwnerSessionUUID := X\<rparr>) =
     (processAvatarIdentityPacket_body tuple node this)\<lparr>lastOwnerSessionUUID := X\<rparr>"
  by (cases tuple) (simp add: Let_def case_prod_beta valueOrAddAvatar_lastOwner_update)

lemma identity_lastOwner_update:
  "processAvatarIdentityPacket identityStream node (this\<lparr>lastOwnerSessionUUID := X\<rparr>) =
     (processAvatarIdentityPacket identityStream node this)\<lparr>lastOwnerSessionUUID := X\<rparr>"
  by (induction identityStream arbitrary: this) (simp_all add: identity_body_lastOwner_update
      del: processAvatarIdentityPacket_body.simps)

lemma billboard_lastOwner_update:
  "processAvatarBillboardPacket packet node (this\<lparr>lastOwnerSessionUUID := X\<rparr>) =
     (processAvatarBillboardPacket packet node this)\<lparr>lastOwnerSessionUUID := X\<rparr>"
  by (simp add: processAvatarBillboardPacket_def Let_def case_prod_beta
      valueOrAddAvatar_lastOwner_update)

lemma kill_lastOwner_update:
  "processKillAvatar packet node (this\<lparr>lastOwnerSessionUUID := X\<rparr>) =
     (processKillAvatar packet node this)\<lparr>lastOwnerSessionUUID := X\<rparr>"
  by (simp add: processKillAvatar_def removeAvatar_def Let_def case_prod_beta)

lemma kill_value:
  "QHash_value (avatarHash (processKillAvatar (newPacket bytes) node this)) k =
     (if k = fromRfc4122 (take 16 bytes) then None else QHash_value (avatarHash this) k)"
  by (simp add: processKillAvatar_def removeAvatar_def Let_def case_prod_beta read_def
      newPacket_def NUM_BYTES_RFC4122_UUID_def QHash_value_remove)

text \<open>
  Claim C9. The identity, billboard and kill handlers do not read the last owner UUID:
  run on an object whose slot holds any \<open>X\<close>, each gives the result it gives otherwise,
  with \<open>X\<close> in the slot. In particular, for the UUID in the slot itself: an identity
  tuple leaves an avatar of that UUID with the tuple's four values, a billboard packet
  leaves an avatar of that UUID with the packet's billboard, and a kill packet leaves no
  avatar of that UUID.
\<close>

theorem last_owner_filters_bulk_data_only:
  "processAvatarIdentityPacket identityStream node (this\<lparr>lastOwnerSessionUUID := X\<rparr>) =
     (processAvatarIdentityPacket identityStream node this)\<lparr>lastOwnerSessionUUID := X\<rparr>
   \<and> processAvatarBillboardPacket packet node (this\<lparr>lastOwnerSessionUUID := X\<rparr>) =
     (processAvatarBillboardPacket packet node this)\<lparr>lastOwnerSessionUUID := X\<rparr>
   \<and> processKillAvatar packet node (this\<lparr>lastOwnerSessionUUID := X\<rparr>) =
     (processKillAvatar packet node this)\<lparr>lastOwnerSessionUUID := X\<rparr>
   \<and> (\<exists>a. QHash_value (avatarHash (processAvatarIdentityPacket
              [(lastOwnerSessionUUID this, f, s, att, d)] node this))
            (lastOwnerSessionUUID this) = Some a
          \<and> faceModelURL a = f \<and> skeletonModelURL a = s \<and> attachmentData a = att
          \<and> displayName a = d)
   \<and> (fromRfc4122 (take 16 bytes) = lastOwnerSessionUUID this \<longrightarrow>
        (\<exists>a. QHash_value (avatarHash (processAvatarBillboardPacket (newPacket bytes) node this))
               (lastOwnerSessionUUID this) = Some a
             \<and> billboard a = drop 16 bytes))
   \<and> (fromRfc4122 (take 16 bytes) = lastOwnerSessionUUID this \<longrightarrow>
        QHash_value (avatarHash (processKillAvatar (newPacket bytes) node this))
          (lastOwnerSessionUUID this) = None)"
proof -
  have identity: "\<exists>a. QHash_value (avatarHash (processAvatarIdentityPacket
              [(lastOwnerSessionUUID this, f, s, att, d)] node this))
            (lastOwnerSessionUUID this) = Some a
          \<and> faceModelURL a = f \<and> skeletonModelURL a = s \<and> attachmentData a = att
          \<and> displayName a = d"
    by (simp add: identity_body_value del: processAvatarIdentityPacket_body.simps)
  have billboard: "fromRfc4122 (take 16 bytes) = lastOwnerSessionUUID this \<longrightarrow>
        (\<exists>a. QHash_value (avatarHash (processAvatarBillboardPacket (newPacket bytes) node this))
               (lastOwnerSessionUUID this) = Some a
             \<and> billboard a = drop 16 bytes)"
    by (auto simp add: billboard_value setBillboard_def)
  have kill: "fromRfc4122 (take 16 bytes) = lastOwnerSessionUUID this \<longrightarrow>
        QHash_value (avatarHash (processKillAvatar (newPacket bytes) node this))
          (lastOwnerSessionUUID this) = None"
    by (simp add: kill_value)
  show ?thesis
    using identity billboard kill identity_lastOwner_update billboard_lastOwner_update
      kill_lastOwner_update
    by blast
qed

theorem last_owner_filters_bulk_data_only_witness:
  "fromRfc4122 (take 16 [0,0,0,0,0,0,0,0,0,0,0,0,0,0,0,1,9,8]) =
     lastOwnerSessionUUID (sessionUUIDChanged 5 1 newAvatarHashMap)
   \<and> QHash_value (avatarHash (processAvatarBillboardPacket
        (newPacket [0,0,0,0,0,0,0,0,0,0,0,0,0,0,0,1,9,8]) None
        (sessionUUIDChanged 5 1 newAvatarHashMap))) 1 \<noteq> None
   \<and> QHash_value (avatarHash (processKillAvatar
        (newPacket [0,0,0,0,0,0,0,0,0,0,0,0,0,0,0,1,9,8]) None
        (sessionUUIDChanged 5 1 newAvatarHashMap))) 1 = None"
proof -
  have h: "fromRfc4122 (take 16 [0,0,0,0,0,0,0,0,0,0,0,0,0,0,0,1,9,8]) =
     lastOwnerSessionUUID (sessionUUIDChanged 5 1 newAvatarHashMap)"
    by (simp add: fromRfc4122_def word_rcat_def sessionUUIDChanged_def)
  have l: "lastOwnerSessionUUID (sessionUUIDChanged 5 1 newAvatarHashMap) = 1"
    by (simp add: sessionUUIDChanged_def)
  note t = last_owner_filters_bulk_data_only
      [where this = "sessionUUIDChanged 5 1 newAvatarHashMap"
         and bytes = "[0,0,0,0,0,0,0,0,0,0,0,0,0,0,0,1,9,8]" and node = None]
  from t h have b: "\<exists>a. QHash_value (avatarHash (processAvatarBillboardPacket
        (newPacket [0,0,0,0,0,0,0,0,0,0,0,0,0,0,0,1,9,8]) None
        (sessionUUIDChanged 5 1 newAvatarHashMap)))
        (lastOwnerSessionUUID (sessionUUIDChanged 5 1 newAvatarHashMap)) = Some a"
    by blast
  from t h have k: "QHash_value (avatarHash (processKillAvatar
        (newPacket [0,0,0,0,0,0,0,0,0,0,0,0,0,0,0,1,9,8]) None
        (sessionUUIDChanged 5 1 newAvatarHashMap)))
        (lastOwnerSessionUUID (sessionUUIDChanged 5 1 newAvatarHashMap)) = None"
    by blast
  show ?thesis
    using h b k by (auto simp: l)
qed

section \<open>The bulk-data loop and sequences of invocations\<close>

lemma valueOrAddAvatar_distinct:
  "distinct (map fst (avatarHash this)) \<Longrightarrow>
   distinct (map fst (avatarHash (snd (valueOrAddAvatar u node this))))"
  by (simp add: valueOrAddAvatar_def addAvatar_def Let_def distinct_QHash_insert
      split: option.split)

lemma body_distinct:
  "distinct (map fst (avatarHash this)) \<Longrightarrow>
   distinct (map fst (avatarHash (fst (processAvatarDataPacket_body parse node this packet))))"
  by (simp add: processAvatarDataPacket_body_def Let_def case_prod_beta keys_writeThrough
      valueOrAddAvatar_distinct)

text \<open>What every turn of the loop preserves holds of the object the loop returns.\<close>

lemma loop_invariant_aux:
  assumes run: "processAvatarDataPacket_loop parse node this packet = Some this'"
  shows "(\<forall>this packet. I this \<longrightarrow> I (fst (processAvatarDataPacket_body parse node this packet)))
     \<longrightarrow> I this \<longrightarrow> I this'"
proof (rule processAvatarDataPacket_loop.raw_induct
    [where P = "\<lambda>p n t k y.
       (\<forall>this packet. I this \<longrightarrow> I (fst (processAvatarDataPacket_body p n this packet)))
         \<longrightarrow> I t \<longrightarrow> I y", OF _ run], goal_cases)
  case (1 loop p n t k y)
  show ?case
  proof (cases "bytesAvailable k = 0")
    case True
    with 1(2) show ?thesis by simp
  next
    case False
    with 1(2) have "loop p n (fst (processAvatarDataPacket_body p n t k))
        (snd (processAvatarDataPacket_body p n t k)) = Some y"
      by simp
    from 1(1) [OF this] show ?thesis
      by blast
  qed
qed

lemma loop_invariant:
  assumes "\<And>this packet. I this \<Longrightarrow> I (fst (processAvatarDataPacket_body parse node this packet))"
    and "processAvatarDataPacket_loop parse node this packet = Some this'"
    and "I this"
  shows "I this'"
  using loop_invariant_aux [of parse node this packet this' I] assms by blast

text \<open>
  A turn consumes at least one byte when the parse reports no negative count, so the loop
  returns for every such parse.
\<close>

lemma body_pos:
  "\<exists>a. pos (snd (processAvatarDataPacket_body parse node this packet)) =
     (if int (pos (snd (read NUM_BYTES_RFC4122_UUID packet)))
           + snd (parse a (fromRawData (getPayload packet)
                   (pos (snd (read NUM_BYTES_RFC4122_UUID packet))))) < 0
      then pos (snd (read NUM_BYTES_RFC4122_UUID packet))
      else nat (int (pos (snd (read NUM_BYTES_RFC4122_UUID packet)))
           + snd (parse a (fromRawData (getPayload packet)
                   (pos (snd (read NUM_BYTES_RFC4122_UUID packet)))))))"
proof (cases "fromRfc4122 (fst (read NUM_BYTES_RFC4122_UUID packet)) \<noteq> lastOwnerSessionUUID this")
  case True
  then show ?thesis
    by (intro exI [of _ "fst (valueOrAddAvatar
          (fromRfc4122 (fst (read NUM_BYTES_RFC4122_UUID packet))) node this)"])
      (simp add: processAvatarDataPacket_body_def Let_def case_prod_beta seek_def)
next
  case False
  then show ?thesis
    by (intro exI [of _ newAvatarData])
      (simp add: processAvatarDataPacket_body_def Let_def case_prod_beta seek_def)
qed

lemma pos_read:
  "pos (snd (read n packet)) = pos packet + min n (length (getPayload packet) - pos packet)"
  by (simp add: read_def Let_def min_def)

lemma body_getPayload [simp]:
  "getPayload (snd (processAvatarDataPacket_body parse node this packet)) = getPayload packet"
  by (simp add: processAvatarDataPacket_body_def Let_def case_prod_beta seek_def)

lemma body_advances:
  assumes "\<forall>a b. 0 \<le> snd (parse a b)" and "bytesAvailable packet \<noteq> 0"
  shows "bytesAvailable (snd (processAvatarDataPacket_body parse node this packet))
           < bytesAvailable packet"
proof -
  let ?pos1 = "pos (snd (read NUM_BYTES_RFC4122_UUID packet))"
  have "pos packet < ?pos1"
    using assms(2) by (simp add: bytesAvailable_def pos_read NUM_BYTES_RFC4122_UUID_def)
  moreover obtain a where "pos (snd (processAvatarDataPacket_body parse node this packet)) =
     (if int ?pos1 + snd (parse a (fromRawData (getPayload packet) ?pos1)) < 0 then ?pos1
      else nat (int ?pos1 + snd (parse a (fromRawData (getPayload packet) ?pos1))))"
    using body_pos [of parse node this packet] by blast
  moreover have "0 \<le> snd (parse a (fromRawData (getPayload packet) ?pos1))"
    using assms(1) by blast
  ultimately have "pos packet < pos (snd (processAvatarDataPacket_body parse node this packet))"
    by (simp split: if_splits)
  then show ?thesis
    using assms(2) by (simp add: bytesAvailable_def)
qed

lemma loop_returns:
  assumes "\<forall>a b. 0 \<le> snd (parse a b)"
  shows "\<exists>this'. processAvatarDataPacket_loop parse node this packet = Some this'"
proof (induction "bytesAvailable packet" arbitrary: this packet rule: less_induct)
  case less
  show ?case
  proof (cases "bytesAvailable packet = 0")
    case True
    then show ?thesis
      by (subst processAvatarDataPacket_loop.simps) simp
  next
    case False
    have "bytesAvailable (snd (processAvatarDataPacket_body parse node this packet))
           < bytesAvailable packet"
      using body_advances [OF assms False] by blast
    from less [OF this]
    obtain this' where "processAvatarDataPacket_loop parse node
        (fst (processAvatarDataPacket_body parse node this packet))
        (snd (processAvatarDataPacket_body parse node this packet)) = Some this'"
      by blast
    with False show ?thesis
      by (subst processAvatarDataPacket_loop.simps) simp
  qed
qed

lemma valueOrAddAvatar_sessionUUID:
  "uuidsMatch this \<Longrightarrow> sessionUUID (fst (valueOrAddAvatar u node this)) = u"
  by (force simp add: uuidsMatch_def valueOrAddAvatar_def addAvatar_def Let_def
      setSessionUUID_def setOwningAvatarMixer_def split: option.split
      dest: QHash_value_in_set)

lemma valueOrAddAvatar_uuidsMatch:
  "uuidsMatch this \<Longrightarrow> uuidsMatch (snd (valueOrAddAvatar u node this))"
  using set_QHash_insert [of u "setOwningAvatarMixer node (setSessionUUID u newSharedAvatar)"
      "avatarHash this"]
  by (auto simp add: uuidsMatch_def valueOrAddAvatar_def addAvatar_def Let_def
      setSessionUUID_def setOwningAvatarMixer_def split: option.split)

lemma writeThrough_uuidsMatch:
  "uuidsMatch this \<Longrightarrow> sessionUUID a = u \<Longrightarrow>
   uuidsMatch (this\<lparr>avatarHash := writeThrough u a (avatarHash this)\<rparr>)"
  using set_writeThrough [of u a "avatarHash this"]
  by (auto simp add: uuidsMatch_def)

lemma invokeAll_invariant:
  assumes "\<And>i this this'. I this \<Longrightarrow> invoke parse i this = Some this' \<Longrightarrow> I this'"
    and "invokeAll parse invocations this = Some this'"
    and "I this"
  shows "I this'"
  using assms(2,3)
proof (induction invocations arbitrary: this)
  case Nil
  then show ?case by simp
next
  case (Cons i rest)
  then show ?case
    using assms(1) by (auto split: option.splits)
qed

lemma identity_body_distinct:
  "distinct (map fst (avatarHash this)) \<Longrightarrow>
   distinct (map fst (avatarHash (processAvatarIdentityPacket_body tuple node this)))"
  by (cases tuple)
    (simp add: Let_def case_prod_beta keys_writeThrough valueOrAddAvatar_distinct)

lemma identity_distinct:
  "distinct (map fst (avatarHash this)) \<Longrightarrow>
   distinct (map fst (avatarHash (processAvatarIdentityPacket identityStream node this)))"
  by (induction identityStream arbitrary: this)
    (simp_all add: identity_body_distinct del: processAvatarIdentityPacket_body.simps)

lemma billboard_distinct:
  "distinct (map fst (avatarHash this)) \<Longrightarrow>
   distinct (map fst (avatarHash (processAvatarBillboardPacket packet node this)))"
  by (simp add: processAvatarBillboardPacket_def Let_def case_prod_beta keys_writeThrough
      valueOrAddAvatar_distinct)

lemma kill_distinct:
  "distinct (map fst (avatarHash this)) \<Longrightarrow>
   distinct (map fst (avatarHash (processKillAvatar packet node this)))"
  by (simp add: processKillAvatar_def removeAvatar_def Let_def case_prod_beta
      distinct_QHash_remove)

lemma invoke_distinct:
  assumes "distinct (map fst (avatarHash this))" and "invoke parse i this = Some this'"
  shows "distinct (map fst (avatarHash this'))"
proof (cases i)
  case (BulkAvatarData packet node)
  with assms(2) have "processAvatarDataPacket_loop parse node this packet = Some this'"
    by (simp add: processAvatarDataPacket_def)
  from loop_invariant [where I = "\<lambda>this. distinct (map fst (avatarHash this))", OF _ this assms(1)]
  show ?thesis
    by (simp add: body_distinct)
next
  case (KillAvatar packet node)
  with assms show ?thesis by (auto simp: kill_distinct)
next
  case (AvatarIdentity identityStream node)
  with assms show ?thesis by (auto simp: identity_distinct)
next
  case (AvatarBillboard packet node)
  with assms show ?thesis by (auto simp: billboard_distinct)
next
  case (UuidChanged newId oldId)
  with assms show ?thesis by (auto simp: sessionUUIDChanged_def)
qed

lemma distinct_keys_count:
  "distinct (map fst items) \<Longrightarrow> length (filter (\<lambda>item. fst item = u) items) \<le> 1"
  by (induction items) (auto simp: filter_empty_conv image_iff)

text \<open>
  Claim C1. Whatever sequence of invocations (bulk data, kill, identity, billboard, UUID
  change) a new object has gone through, its hash holds at most one item per session
  UUID, and the creation path, taken for a UUID that has an avatar, returns that avatar
  and leaves the object as it was. The same holds in the middle of a bulk packet, after a
  turn of its loop.
\<close>

theorem one_avatar_per_sessionUUID:
  assumes "invokeAll parse invocations newAvatarHashMap = Some this"
  shows "distinct (map fst (avatarHash this))
     \<and> (\<forall>u. length (filter (\<lambda>item. fst item = u) (avatarHash this)) \<le> 1)
     \<and> (\<forall>u a node. QHash_value (avatarHash this) u = Some a \<longrightarrow>
           valueOrAddAvatar u node this = (a, this))
     \<and> (\<forall>node packet.
           distinct (map fst (avatarHash
             (fst (processAvatarDataPacket_body parse node this packet)))))"
proof -
  have "distinct (map fst (avatarHash newAvatarHashMap))"
    by (simp add: newAvatarHashMap_def)
  from invokeAll_invariant [where I = "\<lambda>this. distinct (map fst (avatarHash this))",
      OF _ assms this]
  have d: "distinct (map fst (avatarHash this))"
    using invoke_distinct by blast
  then have "\<forall>u. length (filter (\<lambda>item. fst item = u) (avatarHash this)) \<le> 1"
    by (intro allI distinct_keys_count)
  with d show ?thesis
    by (simp add: valueOrAddAvatar_existing body_distinct)
qed

lemma invokeAll_returns:
  assumes "\<forall>a b. 0 \<le> snd (parse a b)"
  shows "\<exists>this'. invokeAll parse invocations this = Some this'"
proof (induction invocations arbitrary: this)
  case Nil
  show ?case by simp
next
  case (Cons i rest)
  have "\<exists>this'. invoke parse i this = Some this'"
    using loop_returns [OF assms] by (cases i) (simp_all add: processAvatarDataPacket_def)
  then show ?case
    using Cons by auto
qed

lemma body_uuidsMatch:
  assumes "\<forall>a b. sessionUUID (fst (parse a b)) = sessionUUID a" and "uuidsMatch this"
  shows "uuidsMatch (fst (processAvatarDataPacket_body parse node this packet))"
proof (cases "fromRfc4122 (fst (read NUM_BYTES_RFC4122_UUID packet)) = lastOwnerSessionUUID this")
  case True
  then show ?thesis
    using assms(2) by (simp add: body_echo)
next
  case False
  let ?u = "fromRfc4122 (fst (read NUM_BYTES_RFC4122_UUID packet))"
  let ?buffer = "fromRawData (getPayload packet) (pos (snd (read NUM_BYTES_RFC4122_UUID packet)))"
  have "sessionUUID (fst (parse (fst (valueOrAddAvatar ?u node this)) ?buffer)) = ?u"
    using assms by (simp add: valueOrAddAvatar_sessionUUID)
  from writeThrough_uuidsMatch [OF valueOrAddAvatar_uuidsMatch [OF assms(2)] this]
  show ?thesis
    using False by (simp add: processAvatarDataPacket_body_def Let_def case_prod_beta)
qed

lemma identity_body_uuidsMatch:
  assumes "uuidsMatch this"
  shows "uuidsMatch (processAvatarIdentityPacket_body tuple node this)"
proof (cases tuple)
  case (fields u f s att d)
  let ?a = "fst (valueOrAddAvatar u node this)"
  let ?a1 = "if faceModelURL ?a \<noteq> f then setFaceModelURL f ?a else ?a"
  let ?a2 = "if skeletonModelURL ?a1 \<noteq> s then setSkeletonModelURL s ?a1 else ?a1"
  let ?a3 = "if attachmentData ?a2 \<noteq> att then setAttachmentData att ?a2 else ?a2"
  let ?a4 = "if displayName ?a3 \<noteq> d then setDisplayName d ?a3 else ?a3"
  have "sessionUUID ?a4 = u"
    using valueOrAddAvatar_sessionUUID [OF assms, of u node]
    by (simp add: setFaceModelURL_def setSkeletonModelURL_def setAttachmentData_def
        setDisplayName_def)
  from writeThrough_uuidsMatch [OF valueOrAddAvatar_uuidsMatch [OF assms] this]
  show ?thesis
    unfolding fields by (simp add: Let_def case_prod_beta)
qed

lemma identity_uuidsMatch:
  "uuidsMatch this \<Longrightarrow> uuidsMatch (processAvatarIdentityPacket identityStream node this)"
  by (induction identityStream arbitrary: this)
    (simp_all add: identity_body_uuidsMatch del: processAvatarIdentityPacket_body.simps)

lemma billboard_uuidsMatch:
  assumes "uuidsMatch this"
  shows "uuidsMatch (processAvatarBillboardPacket packet node this)"
proof -
  let ?u = "fromRfc4122 (fst (read NUM_BYTES_RFC4122_UUID packet))"
  let ?a = "fst (valueOrAddAvatar ?u node this)"
  let ?b = "fst (read (bytesAvailable (snd (read NUM_BYTES_RFC4122_UUID packet)))
                  (snd (read NUM_BYTES_RFC4122_UUID packet)))"
  have "sessionUUID (if billboard ?a \<noteq> ?b then setBillboard ?b ?a else ?a) = ?u"
    using valueOrAddAvatar_sessionUUID [OF assms, of ?u node] by (simp add: setBillboard_def)
  from writeThrough_uuidsMatch [OF valueOrAddAvatar_uuidsMatch [OF assms] this]
  show ?thesis
    by (simp add: processAvatarBillboardPacket_def Let_def case_prod_beta)
qed

lemma kill_uuidsMatch:
  "uuidsMatch this \<Longrightarrow> uuidsMatch (processKillAvatar packet node this)"
  using set_QHash_remove [of "fromRfc4122 (fst (read NUM_BYTES_RFC4122_UUID packet))"
      "avatarHash this"]
  by (auto simp add: uuidsMatch_def processKillAvatar_def removeAvatar_def Let_def
      case_prod_beta)

lemma invoke_uuidsMatch:
  assumes "\<forall>a b. sessionUUID (fst (parse a b)) = sessionUUID a"
    and "uuidsMatch this" and "invoke parse i this = Some this'"
  shows "uuidsMatch this'"
proof (cases i)
  case (BulkAvatarData packet node)
  with assms(3) have "processAvatarDataPacket_loop parse node this packet = Some this'"
    by (simp add: processAvatarDataPacket_def)
  from loop_invariant [where I = uuidsMatch, OF _ this assms(2)]
  show ?thesis
    using body_uuidsMatch [OF assms(1)] by blast
next
  case (KillAvatar packet node)
  with assms show ?thesis by (auto simp: kill_uuidsMatch)
next
  case (AvatarIdentity identityStream node)
  with assms show ?thesis by (auto simp: identity_uuidsMatch)
next
  case (AvatarBillboard packet node)
  with assms show ?thesis by (auto simp: billboard_uuidsMatch)
next
  case (UuidChanged newId oldId)
  with assms show ?thesis by (auto simp: sessionUUIDChanged_def uuidsMatch_def)
qed

text \<open>
  Claim C10. Provided the parser leaves the session UUID of the object it parses into
  alone, after any sequence of invocations on a new object every avatar in the hash
  carries the UUID it is stored under, and one more invocation never changes the UUID
  field of the avatar of a UUID. The same holds in the middle of a bulk packet, after a
  turn of its loop.
\<close>

theorem sessionUUID_field_is_key:
  assumes "\<forall>a b. sessionUUID (fst (parse a b)) = sessionUUID a"
    and "invokeAll parse invocations newAvatarHashMap = Some this"
  shows "(\<forall>item \<in> set (avatarHash this). sessionUUID (snd item) = fst item)
     \<and> (\<forall>u a. QHash_value (avatarHash this) u = Some a \<longrightarrow> sessionUUID a = u)
     \<and> (\<forall>i this' u a a'. invoke parse i this = Some this'
           \<and> QHash_value (avatarHash this) u = Some a
           \<and> QHash_value (avatarHash this') u = Some a' \<longrightarrow> sessionUUID a' = sessionUUID a)
     \<and> (\<forall>node packet.
           \<forall>item \<in> set (avatarHash (fst (processAvatarDataPacket_body parse node this packet))).
             sessionUUID (snd item) = fst item)"
proof -
  have value_key: "\<And>this u a. uuidsMatch this \<Longrightarrow> QHash_value (avatarHash this) u = Some a \<Longrightarrow>
      sessionUUID a = u"
    by (force simp add: uuidsMatch_def dest: QHash_value_in_set)
  have "uuidsMatch newAvatarHashMap"
    by (simp add: uuidsMatch_def newAvatarHashMap_def)
  from invokeAll_invariant [where I = uuidsMatch, OF _ assms(2) this]
  have m: "uuidsMatch this"
    using invoke_uuidsMatch [OF assms(1)] by blast
  have "\<forall>i this' u a a'. invoke parse i this = Some this'
           \<and> QHash_value (avatarHash this) u = Some a
           \<and> QHash_value (avatarHash this') u = Some a' \<longrightarrow> sessionUUID a' = sessionUUID a"
    using value_key [OF m] value_key [OF invoke_uuidsMatch [OF assms(1) m]] by blast
  moreover have "\<forall>u a. QHash_value (avatarHash this) u = Some a \<longrightarrow> sessionUUID a = u"
    using value_key [OF m] by blast
  moreover have "\<forall>node packet.
           \<forall>item \<in> set (avatarHash (fst (processAvatarDataPacket_body parse node this packet))).
             sessionUUID (snd item) = fst item"
    using body_uuidsMatch [OF assms(1) m] by (simp add: uuidsMatch_def)
  ultimately show ?thesis
    using m by (simp add: uuidsMatch_def)
qed

lemma example_run:
  "invokeAll lengthPrefixedParse
     [AvatarBillboard (newPacket [0,0,0,0,0,0,0,0,0,0,0,0,0,0,0,1,9,8]) None,
      AvatarBillboard (newPacket [0,0,0,0,0,0,0,0,0,0,0,0,0,0,0,1,7]) None,
      BulkAvatarData (newPacket [0,0,0,0,0,0,0,0,0,0,0,0,0,0,0,2]) None]
     newAvatarHashMap =
   Some \<lparr>avatarHash =
            [(1, newAvatarData\<lparr>sessionUUID := 1, billboard := [7],
                                setterCalls := [SetBillboard, SetBillboard]\<rparr>),
             (2, newAvatarData\<lparr>sessionUUID := 2\<rparr>)],
          lastOwnerSessionUUID = 0\<rparr>"
  by (simp add: processAvatarDataPacket_def processAvatarDataPacket_loop.simps
      processAvatarDataPacket_body_def processAvatarBillboardPacket_def
      read_def newPacket_def bytesAvailable_def seek_def NUM_BYTES_RFC4122_UUID_def
      fromRfc4122_def word_rcat_def fromRawData_def lengthPrefixedParse_def
      newAvatarHashMap_def valueOrAddAvatar_def addAvatar_def newSharedAvatar_def
      newAvatarData_def setSessionUUID_def setOwningAvatarMixer_def setBillboard_def Let_def)

theorem one_avatar_per_sessionUUID_witness:
  "invokeAll lengthPrefixedParse
     [AvatarBillboard (newPacket [0,0,0,0,0,0,0,0,0,0,0,0,0,0,0,1,9,8]) None,
      AvatarBillboard (newPacket [0,0,0,0,0,0,0,0,0,0,0,0,0,0,0,1,7]) None,
      BulkAvatarData (newPacket [0,0,0,0,0,0,0,0,0,0,0,0,0,0,0,2]) None]
     newAvatarHashMap =
   Some \<lparr>avatarHash =
            [(1, newAvatarData\<lparr>sessionUUID := 1, billboard := [7],
                                setterCalls := [SetBillboard, SetBillboard]\<rparr>),
             (2, newAvatarData\<lparr>sessionUUID := 2\<rparr>)],
          lastOwnerSessionUUID = 0\<rparr>
   \<and> distinct (map fst (avatarHash
        \<lparr>avatarHash =
            [(1, newAvatarData\<lparr>sessionUUID := 1, billboard := [7],
                                setterCalls := [SetBillboard, SetBillboard]\<rparr>),
             (2, newAvatarData\<lparr>sessionUUID := 2\<rparr>)],
          lastOwnerSessionUUID = 0\<rparr>))
   \<and> fst (valueOrAddAvatar 2 (Some 9)
        \<lparr>avatarHash =
            [(1, newAvatarData\<lparr>sessionUUID := 1, billboard := [7],
                                setterCalls := [SetBillboard, SetBillboard]\<rparr>),
             (2, newAvatarData\<lparr>sessionUUID := 2\<rparr>)],
          lastOwnerSessionUUID = 0\<rparr>) = newAvatarData\<lparr>sessionUUID := 2\<rparr>"
proof -
  let ?s = "\<lparr>avatarHash =
            [(1, newAvatarData\<lparr>sessionUUID := 1, billboard := [7],
                                setterCalls := [SetBillboard, SetBillboard]\<rparr>),
             (2, newAvatarData\<lparr>sessionUUID := 2\<rparr>)],
          lastOwnerSessionUUID = 0\<rparr>"
  have v: "QHash_value (avatarHash ?s) 2 = Some (newAvatarData\<lparr>sessionUUID := 2\<rparr>)"
    by simp
  from one_avatar_per_sessionUUID [OF example_run] v
  have "distinct (map fst (avatarHash ?s))"
    and "valueOrAddAvatar 2 (Some 9) ?s = (newAvatarData\<lparr>sessionUUID := 2\<rparr>, ?s)"
    by blast+
  then show ?thesis
    using example_run by simp
qed

lemma lengthPrefixedParse_sessionUUID:
  "\<forall>a b. sessionUUID (fst (lengthPrefixedParse a b)) = sessionUUID a"
  by (simp add: lengthPrefixedParse_def split: list.split)

lemma lengthPrefixedParse_nonneg: "\<forall>a b. 0 \<le> snd (lengthPrefixedParse a b)"
  by (simp add: lengthPrefixedParse_def split: list.split)

lemma uint_le_of_unat_le: "unat (x :: byte) \<le> n \<Longrightarrow> uint x \<le> int n"
  by transfer simp

lemma lengthPrefixedParse_in_buffer: "\<forall>a b. snd (lengthPrefixedParse a b) \<le> int (length b)"
  by (simp add: lengthPrefixedParse_def uint_le_of_unat_le split: list.split)

theorem sessionUUID_field_is_key_witness:
  "(\<forall>a b. sessionUUID (fst (lengthPrefixedParse a b)) = sessionUUID a)
   \<and> invokeAll lengthPrefixedParse
     [AvatarBillboard (newPacket [0,0,0,0,0,0,0,0,0,0,0,0,0,0,0,1,9,8]) None,
      AvatarBillboard (newPacket [0,0,0,0,0,0,0,0,0,0,0,0,0,0,0,1,7]) None,
      BulkAvatarData (newPacket [0,0,0,0,0,0,0,0,0,0,0,0,0,0,0,2]) None]
     newAvatarHashMap =
   Some \<lparr>avatarHash =
            [(1, newAvatarData\<lparr>sessionUUID := 1, billboard := [7],
                                setterCalls := [SetBillboard, SetBillboard]\<rparr>),
             (2, newAvatarData\<lparr>sessionUUID := 2\<rparr>)],
          lastOwnerSessionUUID = 0\<rparr>
   \<and> sessionUUID (newAvatarData\<lparr>sessionUUID := 2\<rparr>) = 2"
proof -
  let ?s = "\<lparr>avatarHash =
            [(1, newAvatarData\<lparr>sessionUUID := 1, billboard := [7],
                                setterCalls := [SetBillboard, SetBillboard]\<rparr>),
             (2, newAvatarData\<lparr>sessionUUID := 2\<rparr>)],
          lastOwnerSessionUUID = 0\<rparr>"
  have v: "QHash_value (avatarHash ?s) 2 = Some (newAvatarData\<lparr>sessionUUID := 2\<rparr>)"
    by simp
  from sessionUUID_field_is_key [OF lengthPrefixedParse_sessionUUID example_run] v
  have "sessionUUID (newAvatarData\<lparr>sessionUUID := 2\<rparr>) = 2"
    by blast
  then show ?thesis
    using example_run lengthPrefixedParse_sessionUUID by blast
qed

section \<open>The cursor of the bulk-data loop\<close>

lemma loop_stops:
  "bytesAvailable packet = 0 \<Longrightarrow> processAvatarDataPacket_loop parse node this packet = Some this"
  by (subst processAvatarDataPacket_loop.simps) simp

lemma loop_turn:
  "bytesAvailable packet \<noteq> 0 \<Longrightarrow>
   processAvatarDataPacket_loop parse node this packet =
     processAvatarDataPacket_loop parse node
       (fst (processAvatarDataPacket_body parse node this packet))
       (snd (processAvatarDataPacket_body parse node this packet))"
  by (subst processAvatarDataPacket_loop.simps) simp

lemma body_other_uuids:
  "k \<noteq> fromRfc4122 (fst (read NUM_BYTES_RFC4122_UUID packet)) \<Longrightarrow>
   QHash_value (avatarHash (fst (processAvatarDataPacket_body parse node this packet))) k =
     QHash_value (avatarHash this) k"
  by (cases "fromRfc4122 (fst (read NUM_BYTES_RFC4122_UUID packet)) = lastOwnerSessionUUID this")
    (simp_all add: body_echo body_peer)

text \<open>
  The buffer of a turn is the part of the payload before the cursor. A parse that reports
  no more than the size of its buffer therefore moves the cursor by at most the number of
  bytes already consumed.
\<close>

lemma body_cursor_bound:
  assumes "\<forall>a b. snd (parse a b) \<le> int (length b)"
  shows "pos (snd (processAvatarDataPacket_body parse node this packet))
           \<le> 2 * pos (snd (read NUM_BYTES_RFC4122_UUID packet))"
proof -
  let ?pos1 = "pos (snd (read NUM_BYTES_RFC4122_UUID packet))"
  obtain a where p: "pos (snd (processAvatarDataPacket_body parse node this packet)) =
     (if int ?pos1 + snd (parse a (fromRawData (getPayload packet) ?pos1)) < 0 then ?pos1
      else nat (int ?pos1 + snd (parse a (fromRawData (getPayload packet) ?pos1))))"
    using body_pos [of parse node this packet] by blast
  have "snd (parse a (fromRawData (getPayload packet) ?pos1)) \<le> int ?pos1"
    using assms [rule_format, of a "fromRawData (getPayload packet) ?pos1"]
    by (simp add: fromRawData_def)
  with p show ?thesis
    by (simp split: if_splits)
qed

lemma loop_invariant_pair_aux:
  assumes run: "processAvatarDataPacket_loop parse node this packet = Some this'"
  shows "(\<forall>this packet. I this packet \<and> bytesAvailable packet \<noteq> 0 \<longrightarrow>
            I (fst (processAvatarDataPacket_body parse node this packet))
              (snd (processAvatarDataPacket_body parse node this packet)))
     \<longrightarrow> (\<forall>this packet. I this packet \<and> bytesAvailable packet = 0 \<longrightarrow> Q this)
     \<longrightarrow> I this packet \<longrightarrow> Q this'"
proof (rule processAvatarDataPacket_loop.raw_induct
    [where P = "\<lambda>p n t k y.
       (\<forall>this packet. I this packet \<and> bytesAvailable packet \<noteq> 0 \<longrightarrow>
            I (fst (processAvatarDataPacket_body p n this packet))
              (snd (processAvatarDataPacket_body p n this packet)))
         \<longrightarrow> (\<forall>this packet. I this packet \<and> bytesAvailable packet = 0 \<longrightarrow> Q this)
         \<longrightarrow> I t k \<longrightarrow> Q y", OF _ run], goal_cases)
  case (1 loop p n t k y)
  show ?case
  proof (cases "bytesAvailable k = 0")
    case True
    with 1(2) show ?thesis by auto
  next
    case False
    with 1(2) have "loop p n (fst (processAvatarDataPacket_body p n t k))
        (snd (processAvatarDataPacket_body p n t k)) = Some y"
      by simp
    from 1(1) [OF this] False show ?thesis
      by blast
  qed
qed

lemma valueOrAddAvatar_keys:
  "set (map fst (avatarHash this))
     \<subseteq> set (map fst (avatarHash (snd (valueOrAddAvatar u node this))))"
  by (auto simp add: valueOrAddAvatar_def addAvatar_def Let_def keys_QHash_insert
      simp del: set_map split: option.split)

lemma body_keys:
  "set (map fst (avatarHash this))
     \<subseteq> set (map fst (avatarHash (fst (processAvatarDataPacket_body parse node this packet))))"
  using valueOrAddAvatar_keys
  by (simp add: processAvatarDataPacket_body_def Let_def case_prod_beta keys_writeThrough
      del: set_map)

lemma loop_keys:
  assumes "processAvatarDataPacket_loop parse node this packet = Some this'"
  shows "set (map fst (avatarHash this)) \<subseteq> set (map fst (avatarHash this'))"
proof -
  have "\<And>t k. set (map fst (avatarHash this)) \<subseteq> set (map fst (avatarHash t)) \<Longrightarrow>
      set (map fst (avatarHash this))
        \<subseteq> set (map fst (avatarHash (fst (processAvatarDataPacket_body parse node t k))))"
    using body_keys by blast
  from loop_invariant [where I = "\<lambda>t. set (map fst (avatarHash this)) \<subseteq> set (map fst (avatarHash t))",
      OF this assms]
  show ?thesis by simp
qed

lemma read_uuid_at:
  "fst (read NUM_BYTES_RFC4122_UUID packet) = take 16 (drop (pos packet) (getPayload packet))"
  by (simp add: read_def Let_def NUM_BYTES_RFC4122_UUID_def)

lemma body_pos_increases:
  assumes "\<forall>a b. 0 \<le> snd (parse a b)" and "bytesAvailable packet \<noteq> 0"
  shows "pos packet < pos (snd (processAvatarDataPacket_body parse node this packet))"
  using body_advances [OF assms, of node this] assms(2)
  by (simp add: bytesAvailable_def)

lemma loop_frame:
  assumes nonneg: "\<forall>a b. 0 \<le> snd (parse a b)"
    and run: "processAvatarDataPacket_loop parse node this packet = Some this'"
    and absent: "\<forall>p. pos packet \<le> p \<and> p < length (getPayload packet) \<longrightarrow>
                   fromRfc4122 (take 16 (drop p (getPayload packet))) \<noteq> k"
  shows "QHash_value (avatarHash this') k = QHash_value (avatarHash this) k"
proof -
  let ?I = "\<lambda>(t :: AvatarHashMap) (q :: NLPacket). QHash_value (avatarHash t) k = QHash_value (avatarHash this) k
              \<and> pos packet \<le> pos q \<and> getPayload q = getPayload packet"
  have step: "\<forall>t q. ?I t q \<and> bytesAvailable q \<noteq> 0 \<longrightarrow>
      ?I (fst (processAvatarDataPacket_body parse node t q))
         (snd (processAvatarDataPacket_body parse node t q))"
  proof (intro allI impI)
    fix t :: AvatarHashMap and q :: NLPacket
    assume h: "?I t q \<and> bytesAvailable q \<noteq> 0"
    then have "pos q < length (getPayload packet)"
      by (auto simp add: bytesAvailable_def)
    with h absent have "fromRfc4122 (fst (read NUM_BYTES_RFC4122_UUID q)) \<noteq> k"
      by (auto simp add: read_uuid_at)
    then have "QHash_value (avatarHash (fst (processAvatarDataPacket_body parse node t q))) k =
        QHash_value (avatarHash t) k"
      using body_other_uuids [of k q parse node t] by simp
    moreover have "pos q < pos (snd (processAvatarDataPacket_body parse node t q))"
      using body_pos_increases [OF nonneg, of q node t] h by simp
    ultimately show "?I (fst (processAvatarDataPacket_body parse node t q))
         (snd (processAvatarDataPacket_body parse node t q))"
      using h by simp
  qed
  from loop_invariant_pair_aux [OF run, of ?I
      "\<lambda>t :: AvatarHashMap. QHash_value (avatarHash t) k = QHash_value (avatarHash this) k"] step
  show ?thesis by simp
qed

lemma short_read_is_null_uuid:
  "bytesAvailable packet < 16 \<Longrightarrow> fromRfc4122 (fst (read NUM_BYTES_RFC4122_UUID packet)) = 0"
  by (simp add: read_uuid_at fromRfc4122_def bytesAvailable_def)

text \<open>
  Claim C7, as amended. For every bulk packet, and every parser that never reports a
  negative byte count, the handler returns. Nothing is rolled back: no UUID loses its
  avatar, and the avatar of a UUID, as it was before the packet or as a turn of the loop
  left it, is in the result unchanged unless a later read position of the payload decodes
  to that UUID. Nothing is aborted either: while bytes remain the loop takes its next
  turn from what the last one left, and a turn on fewer than 16 remaining bytes works on
  the avatar of the null UUID, which it creates when there is none (unless the null UUID
  is the last owner UUID).
\<close>

theorem bulk_data_no_abort_no_rollback:
  assumes "\<forall>a b. 0 \<le> snd (parse a b)"
  shows "(\<exists>this'. processAvatarDataPacket parse packet node this = Some this')
   \<and> (\<forall>this'. processAvatarDataPacket parse packet node this = Some this' \<longrightarrow>
         set (map fst (avatarHash this)) \<subseteq> set (map fst (avatarHash this')))
   \<and> (\<forall>this' k. processAvatarDataPacket parse packet node this = Some this'
         \<and> (\<forall>p. pos packet \<le> p \<and> p < length (getPayload packet) \<longrightarrow>
                fromRfc4122 (take 16 (drop p (getPayload packet))) \<noteq> k) \<longrightarrow>
         QHash_value (avatarHash this') k = QHash_value (avatarHash this) k)
   \<and> (bytesAvailable packet \<noteq> 0 \<longrightarrow>
         processAvatarDataPacket parse packet node this =
           processAvatarDataPacket parse
             (snd (processAvatarDataPacket_body parse node this packet)) node
             (fst (processAvatarDataPacket_body parse node this packet)))
   \<and> (\<forall>this' k. bytesAvailable packet \<noteq> 0
         \<and> processAvatarDataPacket parse packet node this = Some this'
         \<and> (\<forall>p. pos (snd (processAvatarDataPacket_body parse node this packet)) \<le> p
                  \<and> p < length (getPayload packet) \<longrightarrow>
                fromRfc4122 (take 16 (drop p (getPayload packet))) \<noteq> k) \<longrightarrow>
         QHash_value (avatarHash this') k =
           QHash_value (avatarHash (fst (processAvatarDataPacket_body parse node this packet))) k)
   \<and> (\<forall>this'. bytesAvailable packet \<noteq> 0
         \<and> processAvatarDataPacket parse packet node this = Some this' \<longrightarrow>
         set (map fst (avatarHash (fst (processAvatarDataPacket_body parse node this packet))))
           \<subseteq> set (map fst (avatarHash this')))
   \<and> (bytesAvailable packet \<noteq> 0 \<and> bytesAvailable packet < 16
         \<and> lastOwnerSessionUUID this \<noteq> 0 \<longrightarrow>
         QHash_value (avatarHash (fst (processAvatarDataPacket_body parse node this packet))) 0
           \<noteq> None)"
proof -
  let ?this1 = "fst (processAvatarDataPacket_body parse node this packet)"
  let ?packet1 = "snd (processAvatarDataPacket_body parse node this packet)"
  have returns: "\<exists>this'. processAvatarDataPacket parse packet node this = Some this'"
    using loop_returns [OF assms] by (simp add: processAvatarDataPacket_def)
  have keys: "\<forall>this'. processAvatarDataPacket parse packet node this = Some this' \<longrightarrow>
         set (map fst (avatarHash this)) \<subseteq> set (map fst (avatarHash this'))"
    using loop_keys by (simp add: processAvatarDataPacket_def)
  have frame: "\<forall>this' k. processAvatarDataPacket parse packet node this = Some this'
         \<and> (\<forall>p. pos packet \<le> p \<and> p < length (getPayload packet) \<longrightarrow>
                fromRfc4122 (take 16 (drop p (getPayload packet))) \<noteq> k) \<longrightarrow>
         QHash_value (avatarHash this') k = QHash_value (avatarHash this) k"
  proof (intro allI impI)
    fix this' k
    assume h: "processAvatarDataPacket parse packet node this = Some this'
         \<and> (\<forall>p. pos packet \<le> p \<and> p < length (getPayload packet) \<longrightarrow>
                fromRfc4122 (take 16 (drop p (getPayload packet))) \<noteq> k)"
    then have run: "processAvatarDataPacket_loop parse node this packet = Some this'"
      by (simp add: processAvatarDataPacket_def)
    from loop_frame [OF assms run] h
    show "QHash_value (avatarHash this') k = QHash_value (avatarHash this) k"
      by blast
  qed
  have turn: "bytesAvailable packet \<noteq> 0 \<longrightarrow>
         processAvatarDataPacket parse packet node this =
           processAvatarDataPacket parse ?packet1 node ?this1"
    using loop_turn [of packet parse node this] by (simp add: processAvatarDataPacket_def)
  have frame1: "\<forall>this' k. bytesAvailable packet \<noteq> 0
         \<and> processAvatarDataPacket parse packet node this = Some this'
         \<and> (\<forall>p. pos ?packet1 \<le> p \<and> p < length (getPayload packet) \<longrightarrow>
                fromRfc4122 (take 16 (drop p (getPayload packet))) \<noteq> k) \<longrightarrow>
         QHash_value (avatarHash this') k = QHash_value (avatarHash ?this1) k"
  proof (intro allI impI)
    fix this' k
    assume h: "bytesAvailable packet \<noteq> 0
         \<and> processAvatarDataPacket parse packet node this = Some this'
         \<and> (\<forall>p. pos ?packet1 \<le> p \<and> p < length (getPayload packet) \<longrightarrow>
                fromRfc4122 (take 16 (drop p (getPayload packet))) \<noteq> k)"
    then have run: "processAvatarDataPacket_loop parse node ?this1 ?packet1 = Some this'"
      using turn by (simp add: processAvatarDataPacket_def)
    have "\<forall>p. pos ?packet1 \<le> p \<and> p < length (getPayload ?packet1) \<longrightarrow>
        fromRfc4122 (take 16 (drop p (getPayload ?packet1))) \<noteq> k"
      using h by simp
    from loop_frame [OF assms run this]
    show "QHash_value (avatarHash this') k = QHash_value (avatarHash ?this1) k" .
  qed
  have keys1: "\<forall>this'. bytesAvailable packet \<noteq> 0
         \<and> processAvatarDataPacket parse packet node this = Some this' \<longrightarrow>
         set (map fst (avatarHash ?this1)) \<subseteq> set (map fst (avatarHash this'))"
  proof (intro allI impI)
    fix this'
    assume h: "bytesAvailable packet \<noteq> 0
         \<and> processAvatarDataPacket parse packet node this = Some this'"
    then have "processAvatarDataPacket_loop parse node ?this1 ?packet1 = Some this'"
      using turn by (simp add: processAvatarDataPacket_def)
    then show "set (map fst (avatarHash ?this1)) \<subseteq> set (map fst (avatarHash this'))"
      by (rule loop_keys)
  qed
  have fragment: "bytesAvailable packet \<noteq> 0 \<and> bytesAvailable packet < 16
         \<and> lastOwnerSessionUUID this \<noteq> 0 \<longrightarrow>
         QHash_value (avatarHash ?this1) 0 \<noteq> None"
    using body_peer [of packet 0 this parse node 0] short_read_is_null_uuid [of packet]
    by auto
  show ?thesis
    using returns keys frame turn frame1 keys1 fragment by blast
qed

lemma short_tail_is_null_uuid:
  "length payload < p + 16 \<Longrightarrow> fromRfc4122 (take 16 (drop p payload)) = 0"
  by (auto simp add: fromRfc4122_def)

lemmas bulk_eval = processAvatarDataPacket_def processAvatarDataPacket_loop.simps
  processAvatarDataPacket_body_def read_def newPacket_def bytesAvailable_def seek_def
  NUM_BYTES_RFC4122_UUID_def fromRfc4122_def word_rcat_def fromRawData_def
  lengthPrefixedParse_def sessionUUIDChanged_def newAvatarHashMap_def valueOrAddAvatar_def
  addAvatar_def newSharedAvatar_def newAvatarData_def setSessionUUID_def
  setOwningAvatarMixer_def Let_def

theorem bulk_data_no_abort_no_rollback_witness:
  "(\<forall>a b. 0 \<le> snd (lengthPrefixedParse a b))
   \<and> processAvatarDataPacket lengthPrefixedParse
      (newPacket [0,0,0,0,0,0,0,0,0,0,0,0,0,0,0,1, 0, 1,2,3,4,5,6,7]) None
      (sessionUUIDChanged 5 9 newAvatarHashMap) =
     Some \<lparr>avatarHash = [(1, newAvatarData\<lparr>sessionUUID := 1\<rparr>), (0, newAvatarData)],
            lastOwnerSessionUUID = 9\<rparr>
   \<and> QHash_value (avatarHash (fst (processAvatarDataPacket_body lengthPrefixedParse None
        (sessionUUIDChanged 5 9 newAvatarHashMap)
        (newPacket [0,0,0,0,0,0,0,0,0,0,0,0,0,0,0,1, 0, 1,2,3,4,5,6,7])))) 1 =
     Some (newAvatarData\<lparr>sessionUUID := 1\<rparr>)
   \<and> QHash_value (avatarHash
        \<lparr>avatarHash = [(1, newAvatarData\<lparr>sessionUUID := 1\<rparr>), (0, newAvatarData)],
         lastOwnerSessionUUID = 9\<rparr>) 1 =
     Some (newAvatarData\<lparr>sessionUUID := 1\<rparr>)"
proof -
  let ?P = "[0,0,0,0,0,0,0,0,0,0,0,0,0,0,0,1, 0, 1,2,3,4,5,6,7] :: QByteArray"
  let ?s = "sessionUUIDChanged 5 9 newAvatarHashMap"
  let ?r = "\<lparr>avatarHash = [(1, newAvatarData\<lparr>sessionUUID := 1\<rparr>), (0, newAvatarData)],
         lastOwnerSessionUUID = 9\<rparr>"
  have avail: "bytesAvailable (newPacket ?P) \<noteq> 0"
    by (simp add: bytesAvailable_def newPacket_def)
  have run: "processAvatarDataPacket lengthPrefixedParse (newPacket ?P) None ?s = Some ?r"
    by (simp add: bulk_eval)
  have turn1: "processAvatarDataPacket_body lengthPrefixedParse None ?s (newPacket ?P) =
      (\<lparr>avatarHash = [(1, newAvatarData\<lparr>sessionUUID := 1\<rparr>)], lastOwnerSessionUUID = 9\<rparr>,
       \<lparr>getPayload = ?P, pos = 17\<rparr>)"
    by (simp add: bulk_eval)
  have later: "\<forall>p. pos (snd (processAvatarDataPacket_body lengthPrefixedParse None ?s
                  (newPacket ?P))) \<le> p \<and> p < length (getPayload (newPacket ?P)) \<longrightarrow>
      fromRfc4122 (take 16 (drop p (getPayload (newPacket ?P)))) \<noteq> 1"
    unfolding turn1 by (simp add: newPacket_def short_tail_is_null_uuid)
  from bulk_data_no_abort_no_rollback [OF lengthPrefixedParse_nonneg, of "newPacket ?P" None ?s]
    avail run later
  have "QHash_value (avatarHash ?r) 1 =
      QHash_value (avatarHash (fst (processAvatarDataPacket_body lengthPrefixedParse None ?s
        (newPacket ?P)))) 1"
    by blast
  then show ?thesis
    using run lengthPrefixedParse_nonneg unfolding turn1 by simp
qed

text \<open>
  Claim C7 as it was stated: a packet that ends in seven bytes after a whole sub-record
  (fewer than the 16 bytes of a UUID) is not cut short at the fragment. The handler reads
  the seven bytes as the sub-record of the null UUID and creates its avatar; without the
  fragment the result has the avatar of UUID 1 alone.
\<close>

theorem bulk_data_truncated_tail_counterexample:
  "processAvatarDataPacket lengthPrefixedParse
      (newPacket [0,0,0,0,0,0,0,0,0,0,0,0,0,0,0,1, 0]) None
      (sessionUUIDChanged 5 9 newAvatarHashMap) =
     Some \<lparr>avatarHash = [(1, newAvatarData\<lparr>sessionUUID := 1\<rparr>)],
            lastOwnerSessionUUID = 9\<rparr>
   \<and> processAvatarDataPacket lengthPrefixedParse
      (newPacket [0,0,0,0,0,0,0,0,0,0,0,0,0,0,0,1, 0, 1,2,3,4,5,6,7]) None
      (sessionUUIDChanged 5 9 newAvatarHashMap) =
     Some \<lparr>avatarHash = [(1, newAvatarData\<lparr>sessionUUID := 1\<rparr>), (0, newAvatarData)],
            lastOwnerSessionUUID = 9\<rparr>"
  by (simp add: bulk_eval)


text \<open>
  Claim C2, evaluated at a packet of two sub-records, with the last owner UUID \<open>1\<close>:
  UUID \<open>1\<close> with the data \<open>02 AA BB\<close> (three bytes, which is what the parse reports
  when given the bytes from the cursor on), then UUID \<open>2\<close> with the data \<open>00\<close>. The
  turn for UUID \<open>1\<close> leaves the object as it was, but the buffer handed to the parse is
  the first 16 bytes of the payload, so the position ends at 17, inside the sub-record,
  and not at 19. The handler then reads a UUID from the middle of the packet: it returns
  with avatars for \<open>AABB00..00\<close> and for the null UUID, and none for UUID \<open>2\<close>.
\<close>

theorem bulk_echo_leaves_cursor_inside_subrecord:
  "snd (lengthPrefixedParse newAvatarData
        (drop 16 [0,0,0,0,0,0,0,0,0,0,0,0,0,0,0,1, 2,0xAA,0xBB,
                  0,0,0,0,0,0,0,0,0,0,0,0,0,0,0,2, 0])) = 3
   \<and> processAvatarDataPacket_body lengthPrefixedParse None
        (sessionUUIDChanged 5 1 newAvatarHashMap)
        (newPacket [0,0,0,0,0,0,0,0,0,0,0,0,0,0,0,1, 2,0xAA,0xBB,
                    0,0,0,0,0,0,0,0,0,0,0,0,0,0,0,2, 0]) =
       (sessionUUIDChanged 5 1 newAvatarHashMap,
        \<lparr>getPayload = [0,0,0,0,0,0,0,0,0,0,0,0,0,0,0,1, 2,0xAA,0xBB,
                       0,0,0,0,0,0,0,0,0,0,0,0,0,0,0,2, 0],
         pos = 17\<rparr>)
   \<and> processAvatarDataPacket lengthPrefixedParse
        (newPacket [0,0,0,0,0,0,0,0,0,0,0,0,0,0,0,1, 2,0xAA,0xBB,
                    0,0,0,0,0,0,0,0,0,0,0,0,0,0,0,2, 0]) None
        (sessionUUIDChanged 5 1 newAvatarHashMap) =
       Some \<lparr>avatarHash =
                [(0xAABB0000000000000000000000000000,
                  newAvatarData\<lparr>sessionUUID := 0xAABB0000000000000000000000000000\<rparr>),
                 (0, newAvatarData)],
              lastOwnerSessionUUID = 1\<rparr>
   \<and> QHash_value (avatarHash
        \<lparr>avatarHash =
                [(0xAABB0000000000000000000000000000,
                  newAvatarData\<lparr>sessionUUID := 0xAABB0000000000000000000000000000\<rparr>),
                 (0, newAvatarData)],
              lastOwnerSessionUUID = 1\<rparr>) 2 = None"
  by (simp add: processAvatarDataPacket_def processAvatarDataPacket_loop.simps
      processAvatarDataPacket_body_def read_def newPacket_def bytesAvailable_def seek_def
      NUM_BYTES_RFC4122_UUID_def fromRfc4122_def word_rcat_def fromRawData_def
      lengthPrefixedParse_def sessionUUIDChanged_def newAvatarHashMap_def
      valueOrAddAvatar_def addAvatar_def newSharedAvatar_def newAvatarData_def
      setSessionUUID_def setOwningAvatarMixer_def Let_def)

end
